theory Spec2Isabelle
  imports Main "HOL-Library.Word" "HOL-Library.AList" "HOL-Library.Signed_Division"
    "HOL-Library.Multiset"
begin

section \<open>Data model of main.go\<close>

text \<open>
  Go's \<open>int64\<close> is a 64-bit word: \<open>+\<close> wraps around and \<open>>\<close> compares the signed
  readings (\<open>sint\<close>). A Go \<open>map[string]*T\<close> is kept as an association list with one entry
  per key: \<open>map_of\<close> is the lookup, \<open>AList.update\<close> the store (in place when the key
  exists, a new entry otherwise), and \<open>range\<close> walks the entries. Go leaves the order of
  that walk open; the one walk over a map in the functions below takes maxima and wrapped
  sums, which do not depend on it (\<open>aggregatePod_any_container_order\<close>). The printing of
  progress lines is left out.
\<close>

type_synonym int64 = "64 word"

text \<open>
  Go's \<open>/\<close> on \<open>int64\<close> for a divisor that is not zero: the quotient of the signed
  readings truncated towards zero, wrapped to 64 bits. The caller decides what a zero
  divisor does (Go panics).
\<close>

definition div64 :: "int64 \<Rightarrow> int64 \<Rightarrow> int64" where
  "div64 a b = word_of_int (sint a sdiv sint b)"

record ContainerMetrics =
  c_MaxCPU :: int64
  c_MaxMemory :: int64

record PodMetrics =
  p_MaxCPU :: int64
  p_MaxMemory :: int64
  p_Namespace :: string
  Containers :: "(string \<times> ContainerMetrics) list"

record NodeMetrics =
  n_MaxCPU :: int64
  n_MaxMemory :: int64

record MetricsData =
  PodMetricsMap :: "(string \<times> PodMetrics) list"
  NodeMetricsMap :: "(string \<times> NodeMetrics) list"

record DeploymentMetrics =
  Name :: string
  Namespace :: string
  Pods :: "string list"
  MaxCPU :: int64
  MaxMemory :: int64
  AvgCPU :: int64
  AvgMemory :: int64
  TotalPods :: int
  PodsWithoutLimits :: int
  Recommendations :: "string list"

datatype error = MetricsServerUnavailable | IntegerDivideByZero

subsection \<open>What the Kubernetes clients hand to the program\<close>

text \<open>
  An item of the metrics API's pod list: \<open>cm_Cpu\<close> is \<open>container.Usage.Cpu().MilliValue()\<close>
  and \<open>cm_Memory\<close> is \<open>container.Usage.Memory().Value()\<close>, both already \<open>int64\<close>.
\<close>

record ApiContainerMetrics =
  cm_Name :: string
  cm_Cpu :: int64
  cm_Memory :: int64

record ApiPodMetrics =
  pm_Name :: string
  pm_Namespace :: string
  pm_Containers :: "ApiContainerMetrics list"

record ApiNodeMetrics =
  nm_Name :: string
  nm_Cpu :: int64
  nm_Memory :: int64

text \<open>
  A \<open>resource.Quantity\<close> is an exact decimal amount; the program only asks \<open>IsZero\<close> of a
  limit, so the amount is kept as an integer number of its smallest unit. A
  \<open>ResourceList\<close> maps resource names to quantities; \<open>Cpu()\<close> and \<open>Memory()\<close> give the
  zero quantity when the name is missing.
\<close>

type_synonym Quantity = int

type_synonym ResourceList = "(string \<times> Quantity) list"

definition Cpu :: "ResourceList \<Rightarrow> Quantity" where
  "Cpu rl = (case map_of rl ''cpu'' of None \<Rightarrow> 0 | Some q \<Rightarrow> q)"

definition Memory :: "ResourceList \<Rightarrow> Quantity" where
  "Memory rl = (case map_of rl ''memory'' of None \<Rightarrow> 0 | Some q \<Rightarrow> q)"

definition IsZero :: "Quantity \<Rightarrow> bool" where
  "IsZero q = (q = 0)"

record OwnerReference =
  Kind :: string
  ref_Name :: string

record Container =
  ct_Name :: string
  Limits :: ResourceList

record Pod =
  pod_Name :: string
  pod_Namespace :: string
  pod_OwnerReferences :: "OwnerReference list"
  pod_Containers :: "Container list"

record ReplicaSet =
  rs_OwnerReferences :: "OwnerReference list"

text \<open>
  The cluster client as the resolver uses it: \<open>ReplicaSets(namespace).Get(name)\<close>, with
  \<open>None\<close> for a call that returns an error.
\<close>

type_synonym Clientset = "string \<Rightarrow> string \<Rightarrow> ReplicaSet option"

text \<open>
  The metrics client is the one stateful collaborator of the sampler. Its state holds the
  answers it will give to the successive list calls (\<open>None\<close> is a call that returns an
  error; a client with no answer left fails the call) and the record of what the program
  did to the outside: each list call with the answer it got, and each \<open>time.Sleep\<close>.
\<close>

datatype Event =
    PodMetricsList "ApiPodMetrics list option"
  | NodeMetricsList "ApiNodeMetrics list option"
  | Sleep int

record MetricsClient =
  podAnswers :: "ApiPodMetrics list option list"
  nodeAnswers :: "ApiNodeMetrics list option list"
  events :: "Event list"

definition listPodMetricses :: "MetricsClient \<Rightarrow> ApiPodMetrics list option \<times> MetricsClient" where
  "listPodMetricses mc =
     (case podAnswers mc of
        [] \<Rightarrow> (None, mc\<lparr>events := events mc @ [PodMetricsList None]\<rparr>)
      | a # rest \<Rightarrow> (a, mc\<lparr>podAnswers := rest, events := events mc @ [PodMetricsList a]\<rparr>))"

definition listNodeMetricses :: "MetricsClient \<Rightarrow> ApiNodeMetrics list option \<times> MetricsClient" where
  "listNodeMetricses mc =
     (case nodeAnswers mc of
        [] \<Rightarrow> (None, mc\<lparr>events := events mc @ [NodeMetricsList None]\<rparr>)
      | a # rest \<Rightarrow> (a, mc\<lparr>nodeAnswers := rest, events := events mc @ [NodeMetricsList a]\<rparr>))"

definition sleep :: "int \<Rightarrow> MetricsClient \<Rightarrow> MetricsClient" where
  "sleep d mc = mc\<lparr>events := events mc @ [Sleep d]\<rparr>"

text \<open>
  Reading a record of events: whether an event is a pod list call, and the items that
  the successful pod list calls, and the successful node list calls, returned, in order.
\<close>

fun isPodMetricsList :: "Event \<Rightarrow> bool" where
  "isPodMetricsList (PodMetricsList a) = True"
| "isPodMetricsList (NodeMetricsList a) = False"
| "isPodMetricsList (Sleep d) = False"

fun podSamples :: "Event list \<Rightarrow> ApiPodMetrics list" where
  "podSamples [] = []"
| "podSamples (PodMetricsList (Some podItems) # evs) = podItems @ podSamples evs"
| "podSamples (PodMetricsList None # evs) = podSamples evs"
| "podSamples (NodeMetricsList a # evs) = podSamples evs"
| "podSamples (Sleep d # evs) = podSamples evs"

fun nodeSamples :: "Event list \<Rightarrow> ApiNodeMetrics list" where
  "nodeSamples [] = []"
| "nodeSamples (NodeMetricsList (Some nodeItems) # evs) = nodeItems @ nodeSamples evs"
| "nodeSamples (NodeMetricsList None # evs) = nodeSamples evs"
| "nodeSamples (PodMetricsList a # evs) = nodeSamples evs"
| "nodeSamples (Sleep d # evs) = nodeSamples evs"

section \<open>The metrics sampler\<close>

text \<open>\<open>checkMetricsServer\<close>: one node list call; its error, if any, is the result.\<close>

definition checkMetricsServer :: "MetricsClient \<Rightarrow> error option \<times> MetricsClient" where
  "checkMetricsServer mc =
     (case listNodeMetricses mc of
        (None, mc') \<Rightarrow> (Some MetricsServerUnavailable, mc')
      | (Some _, mc') \<Rightarrow> (None, mc'))"

text \<open>
  The body of the loop over \<open>pod.Containers\<close>: the entry is created with zero maxima when
  the container name is new, then each maximum is replaced when the sample is greater.
\<close>

definition updateContainer ::
  "ApiContainerMetrics \<Rightarrow> (string \<times> ContainerMetrics) list \<Rightarrow> (string \<times> ContainerMetrics) list" where
  "updateContainer container cs =
     (let cur = (case map_of cs (cm_Name container) of
                   None \<Rightarrow> \<lparr>c_MaxCPU = 0, c_MaxMemory = 0\<rparr>
                 | Some e \<Rightarrow> e);
          cur1 = (if sint (c_MaxCPU cur) < sint (cm_Cpu container)
                  then cur\<lparr>c_MaxCPU := cm_Cpu container\<rparr> else cur);
          cur2 = (if sint (c_MaxMemory cur1) < sint (cm_Memory container)
                  then cur1\<lparr>c_MaxMemory := cm_Memory container\<rparr> else cur1)
      in AList.update (cm_Name container) cur2 cs)"

text \<open>
  The body of the loop over \<open>podMetrics.Items\<close>: the entry is keyed by \<open>pod.Name\<close> and
  takes the namespace of the item that creates it.
\<close>

definition updatePod :: "ApiPodMetrics \<Rightarrow> (string \<times> PodMetrics) list \<Rightarrow> (string \<times> PodMetrics) list" where
  "updatePod pod pms =
     (let cur = (case map_of pms (pm_Name pod) of
                   None \<Rightarrow> \<lparr>p_MaxCPU = 0, p_MaxMemory = 0, p_Namespace = pm_Namespace pod,
                            Containers = []\<rparr>
                 | Some e \<Rightarrow> e)
      in AList.update (pm_Name pod)
           (cur\<lparr>Containers := fold updateContainer (pm_Containers pod) (Containers cur)\<rparr>) pms)"

definition updateNode :: "ApiNodeMetrics \<Rightarrow> (string \<times> NodeMetrics) list \<Rightarrow> (string \<times> NodeMetrics) list" where
  "updateNode node nms =
     (let cur = (case map_of nms (nm_Name node) of
                   None \<Rightarrow> \<lparr>n_MaxCPU = 0, n_MaxMemory = 0\<rparr>
                 | Some e \<Rightarrow> e);
          cur1 = (if sint (n_MaxCPU cur) < sint (nm_Cpu node)
                  then cur\<lparr>n_MaxCPU := nm_Cpu node\<rparr> else cur);
          cur2 = (if sint (n_MaxMemory cur1) < sint (nm_Memory node)
                  then cur1\<lparr>n_MaxMemory := nm_Memory node\<rparr> else cur1)
      in AList.update (nm_Name node) cur2 nms)"

text \<open>\<open>interval := 30 * time.Second\<close>, a \<open>time.Duration\<close> in nanoseconds.\<close>

definition interval :: int where
  "interval = 30 * 1000000000"

text \<open>
  One pass through the body of the sampling loop. Both \<open>continue\<close> statements leave the
  body at once: what was done before them stays, what follows them (the
  \<open>time.Sleep(interval)\<close> that ends the body too) is not run.
\<close>

definition collectIteration :: "MetricsData \<Rightarrow> MetricsClient \<Rightarrow> MetricsData \<times> MetricsClient" where
  "collectIteration metrics mc =
     (case listPodMetricses mc of
        (None, mc1) \<Rightarrow> (metrics, mc1)
      | (Some podItems, mc1) \<Rightarrow>
          (let metrics1 = metrics\<lparr>PodMetricsMap := fold updatePod podItems (PodMetricsMap metrics)\<rparr>
           in case listNodeMetricses mc1 of
                (None, mc2) \<Rightarrow> (metrics1, mc2)
              | (Some nodeItems, mc2) \<Rightarrow>
                  (metrics1\<lparr>NodeMetricsMap := fold updateNode nodeItems (NodeMetricsMap metrics1)\<rparr>,
                   sleep interval mc2)))"

text \<open>\<open>for i := 0; i < iterations; i++\<close>\<close>

function collectLoop :: "int \<Rightarrow> int \<Rightarrow> MetricsData \<Rightarrow> MetricsClient \<Rightarrow> MetricsData \<times> MetricsClient" where
  "collectLoop i iterations metrics mc =
     (if i < iterations
      then (case collectIteration metrics mc of
              (metrics', mc') \<Rightarrow> collectLoop (i + 1) iterations metrics' mc')
      else (metrics, mc))"
  by pat_completeness auto
termination
  by (relation "measure (\<lambda>(i, iterations, metrics, mc). nat (iterations - i))") auto

declare collectLoop.simps [simp del]

text \<open>
  \<open>collectMetrics\<close>. The period is a \<open>time.Duration\<close>, an \<open>int64\<close> count of nanoseconds;
  \<open>period / interval\<close> truncates towards zero and cannot overflow for the positive
  constant divisor, so the duration is kept as an integer and divided with \<open>sdiv\<close>.
  The result \<open>Inr metrics\<close> is the non-nil pointer with a nil error, \<open>Inl err\<close> the nil
  pointer with the error.
\<close>

definition collectMetrics :: "MetricsClient \<Rightarrow> int \<Rightarrow> (error + MetricsData) \<times> MetricsClient" where
  "collectMetrics metricsClient period =
     (let metrics = \<lparr>PodMetricsMap = [], NodeMetricsMap = []\<rparr>
      in case checkMetricsServer metricsClient of
           (Some err, mc1) \<Rightarrow> (Inl err, mc1)
         | (None, mc1) \<Rightarrow>
             (let iterations = period sdiv interval
              in case collectLoop 0 iterations metrics mc1 of
                   (metrics', mc2) \<Rightarrow> (Inr metrics', mc2)))"

section \<open>The ownership resolver\<close>

text \<open>The inner loop of \<open>getDeploymentForPod\<close> over \<open>rs.OwnerReferences\<close>.\<close>

fun findDeploymentOwner :: "OwnerReference list \<Rightarrow> string option" where
  "findDeploymentOwner [] = None"
| "findDeploymentOwner (rsOwner # rest) =
     (if Kind rsOwner = ''Deployment'' then Some (ref_Name rsOwner)
      else findDeploymentOwner rest)"

text \<open>
  The outer loop over \<open>pod.OwnerReferences\<close>; a failed \<open>Get\<close> is the \<open>continue\<close>. The
  result is the pair the Go function returns: the name (empty when nothing was found)
  and the error, which is nil on every path.
\<close>

fun scanOwners :: "Clientset \<Rightarrow> string \<Rightarrow> OwnerReference list \<Rightarrow> string \<times> error option" where
  "scanOwners clientset ns [] = ([], None)"
| "scanOwners clientset ns (owner # rest) =
     (if Kind owner = ''ReplicaSet''
      then (case clientset ns (ref_Name owner) of
              None \<Rightarrow> scanOwners clientset ns rest
            | Some rs \<Rightarrow>
                (case findDeploymentOwner (rs_OwnerReferences rs) of
                   Some name \<Rightarrow> (name, None)
                 | None \<Rightarrow> scanOwners clientset ns rest))
      else scanOwners clientset ns rest)"

definition getDeploymentForPod :: "Clientset \<Rightarrow> Pod \<Rightarrow> string \<times> error option" where
  "getDeploymentForPod clientset pod =
     scanOwners clientset (pod_Namespace pod) (pod_OwnerReferences pod)"

section \<open>The deployment aggregator\<close>

text \<open>The loop that sets \<open>hasLimits\<close>, with its \<open>break\<close>.\<close>

fun hasLimitsLoop :: "Container list \<Rightarrow> bool \<Rightarrow> bool" where
  "hasLimitsLoop [] hasLimits = hasLimits"
| "hasLimitsLoop (container # rest) hasLimits =
     (if IsZero (Cpu (Limits container)) \<or> IsZero (Memory (Limits container))
      then False
      else hasLimitsLoop rest hasLimits)"

text \<open>
  The body of the loop over \<open>podMetrics.Containers\<close>; the state is the aggregate
  together with \<open>totalCPU\<close> and \<open>totalMemory\<close>.
\<close>

definition foldContainer ::
  "ContainerMetrics \<Rightarrow> DeploymentMetrics \<times> int64 \<times> int64 \<Rightarrow> DeploymentMetrics \<times> int64 \<times> int64" where
  "foldContainer containerMetrics st =
     (case st of (dm, totalCPU, totalMemory) \<Rightarrow>
        (let dm1 = (if sint (MaxCPU dm) < sint (c_MaxCPU containerMetrics)
                    then dm\<lparr>MaxCPU := c_MaxCPU containerMetrics\<rparr> else dm);
             dm2 = (if sint (MaxMemory dm1) < sint (c_MaxMemory containerMetrics)
                    then dm1\<lparr>MaxMemory := c_MaxMemory containerMetrics\<rparr> else dm1)
         in (dm2, totalCPU + c_MaxCPU containerMetrics, totalMemory + c_MaxMemory containerMetrics)))"

text \<open>
  The body of the loop over \<open>pods\<close>. \<open>dm\<close> is a pointer into the map, so the updated
  aggregate is stored back under its key. \<open>totalCPU\<close> and \<open>totalMemory\<close> are declared
  inside the body and start at zero for every pod. The two divisions by
  \<open>int64(len(podMetrics.Containers))\<close> panic when the map of containers is empty.
\<close>

definition aggregatePod ::
  "Clientset \<Rightarrow> MetricsData \<Rightarrow> Pod \<Rightarrow> (string \<times> DeploymentMetrics) list
     \<Rightarrow> error + (string \<times> DeploymentMetrics) list" where
  "aggregatePod clientset metrics pod deploymentMetrics =
     (case getDeploymentForPod clientset pod of
        (deploymentName, Some err) \<Rightarrow> Inr deploymentMetrics
      | (deploymentName, None) \<Rightarrow>
          if deploymentName = [] then Inr deploymentMetrics
          else
            (let key = pod_Namespace pod @ ''/'' @ deploymentName;
                 dm0 = (case map_of deploymentMetrics key of
                          None \<Rightarrow> \<lparr>Name = deploymentName, Namespace = pod_Namespace pod,
                                   Pods = [], MaxCPU = 0, MaxMemory = 0, AvgCPU = 0,
                                   AvgMemory = 0, TotalPods = 0, PodsWithoutLimits = 0,
                                   Recommendations = []\<rparr>
                        | Some dm \<Rightarrow> dm);
                 dm1 = dm0\<lparr>Pods := Pods dm0 @ [pod_Name pod], TotalPods := TotalPods dm0 + 1\<rparr>;
                 dm2 = (if hasLimitsLoop (pod_Containers pod) True then dm1
                        else dm1\<lparr>PodsWithoutLimits := PodsWithoutLimits dm1 + 1\<rparr>)
             in case map_of (PodMetricsMap metrics) (pod_Name pod) of
                  None \<Rightarrow> Inr (AList.update key dm2 deploymentMetrics)
                | Some podMetrics \<Rightarrow>
                    (case fold foldContainer (map snd (Containers podMetrics)) (dm2, 0, 0) of
                       (dm3, totalCPU, totalMemory) \<Rightarrow>
                         if Containers podMetrics = [] then Inl IntegerDivideByZero
                         else Inr (AList.update key
                                (dm3\<lparr>AvgCPU := div64 totalCPU (word_of_nat (length (Containers podMetrics))),
                                     AvgMemory := div64 totalMemory (word_of_nat (length (Containers podMetrics)))\<rparr>)
                                deploymentMetrics))))"

fun aggregateLoop ::
  "Clientset \<Rightarrow> MetricsData \<Rightarrow> Pod list \<Rightarrow> (string \<times> DeploymentMetrics) list
     \<Rightarrow> error + (string \<times> DeploymentMetrics) list" where
  "aggregateLoop clientset metrics [] deploymentMetrics = Inr deploymentMetrics"
| "aggregateLoop clientset metrics (pod # pods) deploymentMetrics =
     (case aggregatePod clientset metrics pod deploymentMetrics of
        Inl e \<Rightarrow> Inl e
      | Inr deploymentMetrics' \<Rightarrow> aggregateLoop clientset metrics pods deploymentMetrics')"

definition aggregateDeploymentMetrics ::
  "Clientset \<Rightarrow> Pod list \<Rightarrow> MetricsData \<Rightarrow> error + (string \<times> DeploymentMetrics) list" where
  "aggregateDeploymentMetrics clientset pods metrics = aggregateLoop clientset metrics pods []"

section \<open>Example inputs\<close>

text \<open>
  A cluster with two replica sets in namespace \<open>ns\<close>: \<open>web-abc\<close>, owned by the
  deployment \<open>web\<close>, and \<open>orphan-rs\<close>, owned by something that is not a deployment. Every
  other \<open>Get\<close> fails.
\<close>

definition webCluster :: Clientset where
  "webCluster = (\<lambda>ns name.
     if ns = ''ns'' \<and> name = ''web-abc''
     then Some \<lparr>rs_OwnerReferences = [\<lparr>Kind = ''Deployment'', ref_Name = ''web''\<rparr>]\<rparr>
     else if ns = ''ns'' \<and> name = ''orphan-rs''
     then Some \<lparr>rs_OwnerReferences = [\<lparr>Kind = ''Rollout'', ref_Name = ''canary''\<rparr>]\<rparr>
     else None)"

text \<open>
  A pod owned by a job, by a replica set whose \<open>Get\<close> fails and by the replica set that
  has no deployment owner.
\<close>

definition jobPod :: Pod where
  "jobPod =
     \<lparr>pod_Name = ''job-1'', pod_Namespace = ''ns'',
      pod_OwnerReferences = [\<lparr>Kind = ''Job'', ref_Name = ''batch''\<rparr>,
                             \<lparr>Kind = ''ReplicaSet'', ref_Name = ''gone''\<rparr>,
                             \<lparr>Kind = ''ReplicaSet'', ref_Name = ''orphan-rs''\<rparr>],
      pod_Containers = []\<rparr>"

text \<open>A pod of that replica set, with the given name and containers.\<close>

definition webPod :: "string \<Rightarrow> Container list \<Rightarrow> Pod" where
  "webPod name containers =
     \<lparr>pod_Name = name, pod_Namespace = ''ns'',
      pod_OwnerReferences = [\<lparr>Kind = ''ReplicaSet'', ref_Name = ''web-abc''\<rparr>],
      pod_Containers = containers\<rparr>"

text \<open>The snapshot entry of a pod with one observed container \<open>app\<close>.\<close>

definition oneContainer :: "int64 \<Rightarrow> int64 \<Rightarrow> PodMetrics" where
  "oneContainer cpu mem =
     \<lparr>p_MaxCPU = 0, p_MaxMemory = 0, p_Namespace = ''ns'',
      Containers = [(''app'', \<lparr>c_MaxCPU = cpu, c_MaxMemory = mem\<rparr>)]\<rparr>"

text \<open>
  The three pods of the specification's end-to-end scenario: container maxima
  (100m, 50Mi), (200m, 60Mi) and (150m, 40Mi).
\<close>

definition webSnapshot :: MetricsData where
  "webSnapshot =
     \<lparr>PodMetricsMap = [(''web-1'', oneContainer 100 52428800),
                       (''web-2'', oneContainer 200 62914560),
                       (''web-3'', oneContainer 150 41943040)],
      NodeMetricsMap = []\<rparr>"

text \<open>
  Containers of a pod spec: both limits set, the memory limit missing, and the CPU limit
  present but zero.
\<close>

definition bothLimits :: Container where
  "bothLimits = \<lparr>ct_Name = ''app'', Limits = [(''cpu'', 500), (''memory'', 134217728)]\<rparr>"

definition noMemoryLimit :: Container where
  "noMemoryLimit = \<lparr>ct_Name = ''app'', Limits = [(''cpu'', 500)]\<rparr>"

definition zeroCpuLimit :: Container where
  "zeroCpuLimit = \<lparr>ct_Name = ''app'', Limits = [(''cpu'', 0), (''memory'', 134217728)]\<rparr>"

text \<open>
  A metrics client for a run of three iterations: the probe succeeds, the pod list of the
  second iteration fails, and the container \<open>app\<close> of pod \<open>web-1\<close> and the node \<open>node-a\<close>
  are seen twice. \<open>sampledSnapshot\<close> is the snapshot of that run.
\<close>

definition sampledClient :: MetricsClient where
  "sampledClient =
     \<lparr>podAnswers =
        [Some [\<lparr>pm_Name = ''web-1'', pm_Namespace = ''ns'',
                 pm_Containers = [\<lparr>cm_Name = ''app'', cm_Cpu = 100, cm_Memory = 50\<rparr>]\<rparr>],
         None,
         Some [\<lparr>pm_Name = ''web-1'', pm_Namespace = ''ns'',
                 pm_Containers = [\<lparr>cm_Name = ''app'', cm_Cpu = 300, cm_Memory = 40\<rparr>]\<rparr>]],
      nodeAnswers =
        [Some [],
         Some [\<lparr>nm_Name = ''node-a'', nm_Cpu = 1000, nm_Memory = 5\<rparr>],
         Some [\<lparr>nm_Name = ''node-a'', nm_Cpu = 900, nm_Memory = 7\<rparr>]],
      events = []\<rparr>"

definition sampledSnapshot :: MetricsData where
  "sampledSnapshot =
     \<lparr>PodMetricsMap =
        [(''web-1'', \<lparr>p_MaxCPU = 0, p_MaxMemory = 0, p_Namespace = ''ns'',
                      Containers = [(''app'', \<lparr>c_MaxCPU = 300, c_MaxMemory = 50\<rparr>)]\<rparr>)],
      NodeMetricsMap = [(''node-a'', \<lparr>n_MaxCPU = 1000, n_MaxMemory = 7\<rparr>)]\<rparr>"

text \<open>
  One pod list with two pods named \<open>web-1\<close>, the first in namespace \<open>other\<close>, the
  second in namespace \<open>ns\<close>.
\<close>

definition twoNamespaces :: "ApiPodMetrics list" where
  "twoNamespaces =
     [\<lparr>pm_Name = ''web-1'', pm_Namespace = ''other'',
        pm_Containers = [\<lparr>cm_Name = ''app'', cm_Cpu = 900, cm_Memory = 9\<rparr>]\<rparr>,
      \<lparr>pm_Name = ''web-1'', pm_Namespace = ''ns'',
        pm_Containers = [\<lparr>cm_Name = ''app'', cm_Cpu = 100, cm_Memory = 50\<rparr>]\<rparr>]"

section \<open>Aggregation: the walk over a pod's containers\<close>

text \<open>
  \<open>podMetrics.Containers\<close> is a Go map, and the order in which \<open>range\<close> walks it is not
  fixed. The loop body commutes with itself, so the walk gives the same aggregate and
  the same sums in every order, and so does the loop body of the aggregator.
\<close>

lemma foldContainer_state:
  "foldContainer cm (dm, a, b) =
     (dm\<lparr>MaxCPU := (if sint (MaxCPU dm) < sint (c_MaxCPU cm) then c_MaxCPU cm else MaxCPU dm),
         MaxMemory := (if sint (MaxMemory dm) < sint (c_MaxMemory cm)
                       then c_MaxMemory cm else MaxMemory dm)\<rparr>,
      a + c_MaxCPU cm, b + c_MaxMemory cm)"
  by (simp add: foldContainer_def Let_def)

lemma signed_max_commute:
  "(if sint (if sint m < sint x then x else m) < sint y then y
    else (if sint m < sint x then x else m))
   = (if sint (if sint m < sint y then y else m) < sint x then x
      else (if sint m < sint y then y else (m :: int64)))"
proof -
  have "x = y" if "\<not> sint x < sint y" "\<not> sint y < sint x"
    using that by (intro signed_word_eqI) simp
  then show ?thesis
    by auto
qed

lemma foldContainer_commute:
  "foldContainer x (foldContainer y st) = foldContainer y (foldContainer x st)"
proof -
  obtain dm a b where st: "st = (dm, a, b)"
    by (cases st)
  define mx where "mx = (\<lambda>(m :: int64) v. if sint m < sint v then v else m)"
  have state: "foldContainer cm (d, s, t) =
     (d\<lparr>MaxCPU := mx (MaxCPU d) (c_MaxCPU cm), MaxMemory := mx (MaxMemory d) (c_MaxMemory cm)\<rparr>,
      s + c_MaxCPU cm, t + c_MaxMemory cm)" for cm d s t
    by (simp add: foldContainer_state mx_def)
  have comm: "mx (mx m u) v = mx (mx m v) u" for m u v
    unfolding mx_def by (rule signed_max_commute)
  have "mx (mx (MaxCPU dm) (c_MaxCPU y)) (c_MaxCPU x) = mx (mx (MaxCPU dm) (c_MaxCPU x)) (c_MaxCPU y)"
    "mx (mx (MaxMemory dm) (c_MaxMemory y)) (c_MaxMemory x)
       = mx (mx (MaxMemory dm) (c_MaxMemory x)) (c_MaxMemory y)"
    by (rule comm)+
  then show ?thesis
    by (simp add: st state add.commute add.left_commute)
qed

lemma foldContainer_any_order:
  assumes "mset cms = mset cms'"
  shows "fold foldContainer cms st = fold foldContainer cms' st"
proof -
  have "fold foldContainer cms = fold foldContainer cms'"
    by (rule fold_multiset_equiv [OF _ assms]) (simp add: fun_eq_iff foldContainer_commute)
  then show ?thesis
    by simp
qed


lemma aggregatePod_any_container_order:
  assumes "map_of (PodMetricsMap m1) (pod_Name pod) = Some e1"
    and "map_of (PodMetricsMap m2) (pod_Name pod) = Some e2"
    and "mset (Containers e1) = mset (Containers e2)"
  shows "aggregatePod clientset m1 pod deploymentMetrics
           = aggregatePod clientset m2 pod deploymentMetrics"
proof -
  from assms(3) have "mset (map snd (Containers e1)) = mset (map snd (Containers e2))"
    by (metis mset_map)
  then have f: "fold foldContainer (map snd (Containers e1)) st
                  = fold foldContainer (map snd (Containers e2)) st" for st
    by (rule foldContainer_any_order)
  from assms(3) have l: "length (Containers e1) = length (Containers e2)"
    by (rule mset_eq_length)
  then have n: "Containers e1 = [] \<longleftrightarrow> Containers e2 = []"
    by auto
  show ?thesis
    by (simp add: aggregatePod_def assms(1,2) f l n Let_def split: prod.splits option.splits)
qed

section \<open>Aggregation: the averages\<close>

lemmas aggregate_eval =
  aggregateDeploymentMetrics_def aggregatePod_def getDeploymentForPod_def foldContainer_def
  webCluster_def webPod_def webSnapshot_def oneContainer_def bothLimits_def noMemoryLimit_def
  Cpu_def Memory_def IsZero_def div64_def signed_divide_int_def

text \<open>
  What the loop body does with the averages of a pod that has a snapshot entry: with at
  least one container the two averages of the aggregate become the wrapped sums of this
  pod's container maxima divided by the number of this pod's containers, whatever the
  aggregate held before; with no container the division panics.
\<close>

lemma foldContainer_totals:
  "snd (fold foldContainer cms (dm, a, b))
     = (a + sum_list (map c_MaxCPU cms), b + sum_list (map c_MaxMemory cms))"
  by (induction cms arbitrary: dm a b) (simp_all add: foldContainer_def Let_def add.assoc)

lemma aggregatePod_average:
  assumes "getDeploymentForPod clientset pod = (deploymentName, None)"
    and "deploymentName \<noteq> []"
    and "map_of (PodMetricsMap metrics) (pod_Name pod) = Some podMetrics"
    and "Containers podMetrics \<noteq> []"
  shows "\<exists>deploymentMetrics' dm.
           aggregatePod clientset metrics pod deploymentMetrics = Inr deploymentMetrics'
         \<and> map_of deploymentMetrics' (pod_Namespace pod @ ''/'' @ deploymentName) = Some dm
         \<and> AvgCPU dm = div64 (sum_list (map (\<lambda>kv. c_MaxCPU (snd kv)) (Containers podMetrics)))
                          (word_of_nat (length (Containers podMetrics)))
         \<and> AvgMemory dm = div64 (sum_list (map (\<lambda>kv. c_MaxMemory (snd kv)) (Containers podMetrics)))
                          (word_of_nat (length (Containers podMetrics)))"
  using assms
  by (simp add: aggregatePod_def Let_def update_conv' case_prod_beta foldContainer_totals comp_def)

lemma aggregatePod_empty_entry:
  assumes "getDeploymentForPod clientset pod = (deploymentName, None)"
    and "deploymentName \<noteq> []"
    and "map_of (PodMetricsMap metrics) (pod_Name pod) = Some podMetrics"
    and "Containers podMetrics = []"
  shows "aggregatePod clientset metrics pod deploymentMetrics = Inl IntegerDivideByZero"
  using assms
  by (simp add: aggregatePod_def Let_def case_prod_beta)

text \<open>
  C1. The division in \<open>aggregateDeploymentMetrics\<close> has no guard. A pod item that the
  metrics API lists with no containers gets a snapshot entry with an empty container
  map (first conjunct: one sampling iteration over such a list), and aggregating a pod of
  a deployment against that snapshot stops with the integer-divide-by-zero panic instead
  of leaving the averages unchanged (second conjunct).
\<close>

theorem aggregate_zero_containers_panics:
  "fst (collectMetrics
          \<lparr>podAnswers = [Some [\<lparr>pm_Name = ''web-1'', pm_Namespace = ''ns'', pm_Containers = []\<rparr>]],
           nodeAnswers = [Some [], Some []], events = []\<rparr> 30000000000)
     = Inr \<lparr>PodMetricsMap = [(''web-1'', \<lparr>p_MaxCPU = 0, p_MaxMemory = 0, p_Namespace = ''ns'',
                                          Containers = []\<rparr>)],
            NodeMetricsMap = []\<rparr>
   \<and> aggregateDeploymentMetrics webCluster [webPod ''web-1'' []]
         \<lparr>PodMetricsMap = [(''web-1'', \<lparr>p_MaxCPU = 0, p_MaxMemory = 0, p_Namespace = ''ns'',
                                          Containers = []\<rparr>)],
          NodeMetricsMap = []\<rparr>
     = Inl IntegerDivideByZero"
proof
  show "fst (collectMetrics
          \<lparr>podAnswers = [Some [\<lparr>pm_Name = ''web-1'', pm_Namespace = ''ns'', pm_Containers = []\<rparr>]],
           nodeAnswers = [Some [], Some []], events = []\<rparr> 30000000000)
     = Inr \<lparr>PodMetricsMap = [(''web-1'', \<lparr>p_MaxCPU = 0, p_MaxMemory = 0, p_Namespace = ''ns'',
                                          Containers = []\<rparr>)],
            NodeMetricsMap = []\<rparr>"
    by (simp add: collectMetrics_def checkMetricsServer_def listNodeMetricses_def
        listPodMetricses_def interval_def collectIteration_def updatePod_def sleep_def
        signed_divide_int_def collectLoop.simps)
next
  show "aggregateDeploymentMetrics webCluster [webPod ''web-1'' []]
         \<lparr>PodMetricsMap = [(''web-1'', \<lparr>p_MaxCPU = 0, p_MaxMemory = 0, p_Namespace = ''ns'',
                                          Containers = []\<rparr>)],
          NodeMetricsMap = []\<rparr>
     = Inl IntegerDivideByZero"
    by (simp add: aggregateDeploymentMetrics_def aggregatePod_def getDeploymentForPod_def
        webCluster_def webPod_def)
qed

text \<open>
  C2. The specification's end-to-end scenario, run on the code: three pods of the
  deployment \<open>web\<close>, one container each, with maxima (100m, 50Mi), (200m, 60Mi) and
  (150m, 40Mi). The sums are restarted for every pod, so the averages that come out are
  those of the last pod alone: \<open>AvgCPU = 150\<close> and \<open>AvgMemory = 41943040\<close> (40Mi), where
  the sum over the three observed containers divided by their count is 150 and
  52428800 (50Mi).
\<close>

theorem aggregate_average_is_last_pod:
  "aggregateDeploymentMetrics webCluster
     [webPod ''web-1'' [bothLimits], webPod ''web-2'' [noMemoryLimit], webPod ''web-3'' [bothLimits]]
     webSnapshot
   = Inr [(''ns/web'',
           \<lparr>Name = ''web'', Namespace = ''ns'', Pods = [''web-1'', ''web-2'', ''web-3''],
            MaxCPU = 200, MaxMemory = 62914560, AvgCPU = 150, AvgMemory = 41943040,
            TotalPods = 3, PodsWithoutLimits = 1, Recommendations = []\<rparr>)]"
  by (simp add: aggregate_eval)

text \<open>
  C3. The same three pods in two orders: with \<open>web-3\<close> last the averages are (150,
  40Mi), with \<open>web-2\<close> last they are (200, 60Mi). The other fields but \<open>Pods\<close> agree.
\<close>

theorem aggregate_average_depends_on_order:
  "aggregateDeploymentMetrics webCluster
     [webPod ''web-1'' [bothLimits], webPod ''web-2'' [noMemoryLimit], webPod ''web-3'' [bothLimits]]
     webSnapshot
   = Inr [(''ns/web'',
           \<lparr>Name = ''web'', Namespace = ''ns'', Pods = [''web-1'', ''web-2'', ''web-3''],
            MaxCPU = 200, MaxMemory = 62914560, AvgCPU = 150, AvgMemory = 41943040,
            TotalPods = 3, PodsWithoutLimits = 1, Recommendations = []\<rparr>)]
   \<and> aggregateDeploymentMetrics webCluster
     [webPod ''web-3'' [bothLimits], webPod ''web-1'' [bothLimits], webPod ''web-2'' [noMemoryLimit]]
     webSnapshot
   = Inr [(''ns/web'',
           \<lparr>Name = ''web'', Namespace = ''ns'', Pods = [''web-3'', ''web-1'', ''web-2''],
            MaxCPU = 200, MaxMemory = 62914560, AvgCPU = 200, AvgMemory = 62914560,
            TotalPods = 3, PodsWithoutLimits = 1, Recommendations = []\<rparr>)]"
  by (simp add: aggregate_eval)

section \<open>The sampler: probe and window\<close>

lemma collectLoop_done:
  "\<not> i < iterations \<Longrightarrow> collectLoop i iterations metrics mc = (metrics, mc)"
  by (simp add: collectLoop.simps)

lemma sdiv_interval_nonpos:
  assumes "period < interval"
  shows "period sdiv interval \<le> 0"
proof (cases "0 \<le> period")
  case True
  with assms have "\<bar>period\<bar> div \<bar>interval\<bar> = 0"
    by (simp add: interval_def)
  then show ?thesis
    by (simp add: signed_divide_int_def)
next
  case False
  then have "sgn period = - 1"
    by simp
  moreover have "sgn interval = 1"
    by (simp add: interval_def)
  moreover have "0 \<le> \<bar>period\<bar> div \<bar>interval\<bar>"
    by (simp add: pos_imp_zdiv_nonneg_iff interval_def)
  ultimately show ?thesis
    by (simp add: signed_divide_int_def)
qed

text \<open>
  C5. When the probe (the node list call of \<open>checkMetricsServer\<close>) fails, \<open>collectMetrics\<close>
  returns the error and no snapshot, and the probe is the only call it has made: the
  record of events grows by that one node list call, with no pod list call, no further
  node list call and no sleep, and no answer of the pod list is consumed.
\<close>

theorem probe_failure_fails_fast:
  assumes "fst (listNodeMetricses metricsClient) = None"
  shows "fst (collectMetrics metricsClient period) = Inl MetricsServerUnavailable
       \<and> events (snd (collectMetrics metricsClient period))
           = events metricsClient @ [NodeMetricsList None]
       \<and> podAnswers (snd (collectMetrics metricsClient period)) = podAnswers metricsClient"
  using assms
  by (auto simp: collectMetrics_def checkMetricsServer_def listNodeMetricses_def
      split: list.splits prod.splits option.splits)

theorem probe_failure_fails_fast_witness:
  "fst (listNodeMetricses \<lparr>podAnswers = [Some []], nodeAnswers = [None, Some []], events = []\<rparr>) = None
   \<and> fst (collectMetrics \<lparr>podAnswers = [Some []], nodeAnswers = [None, Some []], events = []\<rparr>
            300000000000) = Inl MetricsServerUnavailable
   \<and> events (snd (collectMetrics
            \<lparr>podAnswers = [Some []], nodeAnswers = [None, Some []], events = []\<rparr> 300000000000))
       = [NodeMetricsList None]"
  using probe_failure_fails_fast
    [of "\<lparr>podAnswers = [Some []], nodeAnswers = [None, Some []], events = []\<rparr>" 300000000000]
  by (simp add: listNodeMetricses_def)

text \<open>
  C7. For every window below the interval (negative ones too) and a probe that succeeds,
  the number of iterations \<open>period / interval\<close> is not positive, the loop body never runs,
  and the result is a snapshot (not the nil pointer) whose two maps are empty. The probe
  is the only call made.
\<close>

theorem short_window_empty_snapshot:
  assumes "period < interval"
    and "fst (listNodeMetricses metricsClient) = Some nodes"
  shows "fst (collectMetrics metricsClient period) = Inr \<lparr>PodMetricsMap = [], NodeMetricsMap = []\<rparr>
       \<and> events (snd (collectMetrics metricsClient period))
           = events metricsClient @ [NodeMetricsList (Some nodes)]
       \<and> podAnswers (snd (collectMetrics metricsClient period)) = podAnswers metricsClient"
proof -
  from assms(1) have "\<not> 0 < period sdiv interval"
    using sdiv_interval_nonpos by fastforce
  then have loop: "collectLoop 0 (period sdiv interval) m mc = (m, mc)" for m mc
    by (rule collectLoop_done)
  from assms(2) show ?thesis
    by (auto simp: collectMetrics_def checkMetricsServer_def listNodeMetricses_def loop Let_def
        split: list.splits prod.splits option.splits)
qed

theorem short_window_empty_snapshot_witness:
  "(29999999999 :: int) < interval
   \<and> fst (listNodeMetricses \<lparr>podAnswers = [Some []], nodeAnswers = [Some []], events = []\<rparr>) = Some []
   \<and> fst (collectMetrics \<lparr>podAnswers = [Some []], nodeAnswers = [Some []], events = []\<rparr> 29999999999)
       = Inr \<lparr>PodMetricsMap = [], NodeMetricsMap = []\<rparr>
   \<and> events (snd (collectMetrics
         \<lparr>podAnswers = [Some []], nodeAnswers = [Some []], events = []\<rparr> 29999999999))
       = [NodeMetricsList (Some [])]"
  using short_window_empty_snapshot
    [of 29999999999 "\<lparr>podAnswers = [Some []], nodeAnswers = [Some []], events = []\<rparr>" "[]"]
  by (simp add: listNodeMetricses_def interval_def)

section \<open>The resolver: pods without a deployment\<close>

lemma findDeploymentOwner_None:
  "(\<forall>rsOwner \<in> set owners. Kind rsOwner \<noteq> ''Deployment'') \<Longrightarrow> findDeploymentOwner owners = None"
  by (induction owners) auto

lemma scanOwners_absent:
  "(\<forall>owner \<in> set owners. Kind owner = ''ReplicaSet'' \<longrightarrow>
      (\<forall>rs. clientset ns (ref_Name owner) = Some rs \<longrightarrow>
         (\<forall>rsOwner \<in> set (rs_OwnerReferences rs). Kind rsOwner \<noteq> ''Deployment'')))
   \<Longrightarrow> scanOwners clientset ns owners = ([], None)"
proof (induction owners)
  case Nil
  show ?case by simp
next
  case (Cons owner rest)
  then have rest: "scanOwners clientset ns rest = ([], None)"
    by simp
  show ?case
  proof (cases "Kind owner = ''ReplicaSet''")
    case False
    with rest show ?thesis by simp
  next
    case isRs: True
    show ?thesis
    proof (cases "clientset ns (ref_Name owner)")
      case None
      with isRs rest show ?thesis by simp
    next
      case (Some r)
      with isRs Cons.prems
      have "\<forall>rsOwner \<in> set (rs_OwnerReferences r). Kind rsOwner \<noteq> ''Deployment''"
        by simp
      then have "findDeploymentOwner (rs_OwnerReferences r) = None"
        by (rule findDeploymentOwner_None)
      with isRs Some rest show ?thesis by simp
    qed
  qed
qed

lemma aggregateLoop_append:
  "aggregateLoop c m (xs @ ys) dms =
     (case aggregateLoop c m xs dms of Inl e \<Rightarrow> Inl e | Inr dms' \<Rightarrow> aggregateLoop c m ys dms')"
  by (induction xs arbitrary: dms) (auto split: sum.splits)

text \<open>
  C8. The hypothesis covers both cases of the claim: every owner reference of kind
  \<open>ReplicaSet\<close> (there may be none) names a replica set that, when its \<open>Get\<close> succeeds,
  has no owner of kind \<open>Deployment\<close>. Then \<open>getDeploymentForPod\<close> returns the empty name
  (and the nil error), the loop body of the aggregator leaves the map of aggregates as it
  was, and the whole aggregation is the one of the pod list without that pod. Last
  conjunct: a \<open>ReplicaSet\<close> reference whose \<open>Get\<close> fails is passed over, the result being
  that of the remaining owner references.
\<close>

theorem unowned_pod_is_excluded:
  assumes "\<forall>owner \<in> set (pod_OwnerReferences pod). Kind owner = ''ReplicaSet'' \<longrightarrow>
      (\<forall>rs. clientset (pod_Namespace pod) (ref_Name owner) = Some rs \<longrightarrow>
         (\<forall>rsOwner \<in> set (rs_OwnerReferences rs). Kind rsOwner \<noteq> ''Deployment''))"
  shows "getDeploymentForPod clientset pod = ([], None)
       \<and> aggregatePod clientset metrics pod deploymentMetrics = Inr deploymentMetrics
       \<and> aggregateDeploymentMetrics clientset (before @ pod # after) metrics
           = aggregateDeploymentMetrics clientset (before @ after) metrics
       \<and> (\<forall>owner rest.
            Kind owner = ''ReplicaSet'' \<and> clientset (pod_Namespace pod) (ref_Name owner) = None \<longrightarrow>
            getDeploymentForPod clientset (pod\<lparr>pod_OwnerReferences := owner # rest\<rparr>)
              = getDeploymentForPod clientset (pod\<lparr>pod_OwnerReferences := rest\<rparr>))"
proof -
  from assms have absent: "getDeploymentForPod clientset pod = ([], None)"
    unfolding getDeploymentForPod_def by (rule scanOwners_absent)
  then have skip: "aggregatePod clientset metrics pod dms = Inr dms" for dms
    by (simp add: aggregatePod_def)
  have "aggregateLoop clientset metrics (before @ pod # after) []
          = aggregateLoop clientset metrics (before @ after) []"
    by (simp add: aggregateLoop_append skip split: sum.splits)
  with absent skip show ?thesis
    by (simp add: aggregateDeploymentMetrics_def getDeploymentForPod_def)
qed

theorem unowned_pod_is_excluded_witness:
  "getDeploymentForPod webCluster jobPod = ([], None)
   \<and> aggregateDeploymentMetrics webCluster
        ([webPod ''web-1'' [bothLimits]] @ jobPod # [webPod ''web-3'' [bothLimits]]) webSnapshot
       = aggregateDeploymentMetrics webCluster
        ([webPod ''web-1'' [bothLimits]] @ [webPod ''web-3'' [bothLimits]]) webSnapshot
   \<and> getDeploymentForPod webCluster
        (jobPod\<lparr>pod_OwnerReferences := [\<lparr>Kind = ''ReplicaSet'', ref_Name = ''gone''\<rparr>,
                                         \<lparr>Kind = ''ReplicaSet'', ref_Name = ''web-abc''\<rparr>]\<rparr>)
       = (''web'', None)"
  using unowned_pod_is_excluded
    [of jobPod webCluster webSnapshot "[]" "[webPod ''web-1'' [bothLimits]]"
        "[webPod ''web-3'' [bothLimits]]"]
  by (simp add: jobPod_def webCluster_def getDeploymentForPod_def)

section \<open>The aggregator: pods without limits\<close>

lemma hasLimitsLoop_iff:
  "hasLimitsLoop containers True \<longleftrightarrow>
     \<not> (\<exists>c \<in> set containers.
           (case map_of (Limits c) ''cpu'' of None \<Rightarrow> True | Some q \<Rightarrow> q = 0)
         \<or> (case map_of (Limits c) ''memory'' of None \<Rightarrow> True | Some q \<Rightarrow> q = 0))"
  by (induction containers) (auto simp: Cpu_def Memory_def IsZero_def split: option.splits)

lemma foldContainer_counts:
  "PodsWithoutLimits (fst (fold foldContainer cms (dm, a, b))) = PodsWithoutLimits dm
   \<and> TotalPods (fst (fold foldContainer cms (dm, a, b))) = TotalPods dm
   \<and> Pods (fst (fold foldContainer cms (dm, a, b))) = Pods dm
   \<and> Name (fst (fold foldContainer cms (dm, a, b))) = Name dm
   \<and> Namespace (fst (fold foldContainer cms (dm, a, b))) = Namespace dm"
  by (induction cms arbitrary: dm a b) (simp_all add: foldContainer_def Let_def)

text \<open>
  C9. A pod that resolves to a deployment, and whose snapshot entry (if it has one) is
  not the empty one on which the division panics, is folded into the aggregate of its
  key, and the aggregate's \<open>PodsWithoutLimits\<close> is the old count (zero for a new
  aggregate) plus one exactly when some container of the pod spec has no CPU limit or a
  zero one, or no memory limit or a zero one. With no container in the spec nothing is
  added.
\<close>

theorem pods_without_limits_counted:
  assumes "getDeploymentForPod clientset pod = (deploymentName, None)"
    and "deploymentName \<noteq> []"
    and "\<forall>podMetrics. map_of (PodMetricsMap metrics) (pod_Name pod) = Some podMetrics
           \<longrightarrow> Containers podMetrics \<noteq> []"
  shows "\<exists>deploymentMetrics' dm.
           aggregatePod clientset metrics pod deploymentMetrics = Inr deploymentMetrics'
         \<and> map_of deploymentMetrics' (pod_Namespace pod @ ''/'' @ deploymentName) = Some dm
         \<and> PodsWithoutLimits dm =
             (case map_of deploymentMetrics (pod_Namespace pod @ ''/'' @ deploymentName) of
                None \<Rightarrow> 0 | Some old \<Rightarrow> PodsWithoutLimits old)
             + (if \<exists>c \<in> set (pod_Containers pod).
                     (case map_of (Limits c) ''cpu'' of None \<Rightarrow> True | Some q \<Rightarrow> q = 0)
                   \<or> (case map_of (Limits c) ''memory'' of None \<Rightarrow> True | Some q \<Rightarrow> q = 0)
                then 1 else 0)"
proof -
  let ?key = "pod_Namespace pod @ ''/'' @ deploymentName"
  let ?lacks = "\<exists>c \<in> set (pod_Containers pod).
                     (case map_of (Limits c) ''cpu'' of None \<Rightarrow> True | Some q \<Rightarrow> q = 0)
                   \<or> (case map_of (Limits c) ''memory'' of None \<Rightarrow> True | Some q \<Rightarrow> q = 0)"
  have hl: "hasLimitsLoop (pod_Containers pod) True \<longleftrightarrow> \<not> ?lacks"
    by (rule hasLimitsLoop_iff)
  show ?thesis
  proof (cases "map_of (PodMetricsMap metrics) (pod_Name pod)")
    case None
    with assms(1,2) show ?thesis
      by (cases "map_of deploymentMetrics ?key")
         (simp_all add: aggregatePod_def Let_def update_conv' hl)
  next
    case (Some podMetrics)
    with assms(3) have ne: "Containers podMetrics \<noteq> []"
      by simp
    from assms(1,2) Some ne show ?thesis
      by (cases "map_of deploymentMetrics ?key")
         (simp_all add: aggregatePod_def Let_def update_conv' hl foldContainer_counts
            case_prod_beta)
  qed
qed

theorem pods_without_limits_counted_witness:
  "(\<exists>deploymentMetrics' dm.
       aggregatePod webCluster webSnapshot (webPod ''web-1'' [zeroCpuLimit]) []
         = Inr deploymentMetrics'
     \<and> map_of deploymentMetrics' ''ns/web'' = Some dm \<and> PodsWithoutLimits dm = 1)
   \<and> (\<exists>deploymentMetrics' dm.
       aggregatePod webCluster webSnapshot (webPod ''web-1'' []) [] = Inr deploymentMetrics'
     \<and> map_of deploymentMetrics' ''ns/web'' = Some dm \<and> PodsWithoutLimits dm = 0)"
  using pods_without_limits_counted
      [of webCluster "webPod ''web-1'' [zeroCpuLimit]" "''web''" webSnapshot "[]"]
    pods_without_limits_counted
      [of webCluster "webPod ''web-1'' []" "''web''" webSnapshot "[]"]
  by (simp add: getDeploymentForPod_def webCluster_def webPod_def webSnapshot_def
      oneContainer_def zeroCpuLimit_def)

section \<open>The sampler: an iteration whose fetch fails\<close>

lemma collectIteration_pod_calls:
  "length (filter isPodMetricsList (events (snd (collectIteration metrics mc))))
     = Suc (length (filter isPodMetricsList (events mc)))"
  by (auto simp: collectIteration_def listPodMetricses_def listNodeMetricses_def sleep_def Let_def
      split: list.splits option.splits prod.splits)

lemma collectLoop_pod_calls:
  "length (filter isPodMetricsList (events (snd (collectLoop i iterations metrics mc))))
     = length (filter isPodMetricsList (events mc)) + nat (iterations - i)"
proof (induction i iterations metrics mc rule: collectLoop.induct)
  case (1 i iterations metrics mc)
  show ?case
  proof (cases "i < iterations")
    case False
    then show ?thesis
      by (simp add: collectLoop.simps)
  next
    case True
    obtain metrics' mc' where it: "collectIteration metrics mc = (metrics', mc')"
      by (cases "collectIteration metrics mc")
    have "length (filter isPodMetricsList (events mc'))
            = Suc (length (filter isPodMetricsList (events mc)))"
      using collectIteration_pod_calls [of metrics mc] it by simp
    moreover have "nat (iterations - i) = Suc (nat (iterations - (i + 1)))"
      using True by simp
    moreover have "collectLoop i iterations metrics mc
                     = collectLoop (i + 1) iterations metrics' mc'"
      using True it by (simp add: collectLoop.simps)
    ultimately show ?thesis
      using "1.IH" [OF True it [symmetric]] by simp
  qed
qed

text \<open>
  The calls and sleeps of one iteration: the \<open>time.Sleep\<close> is reached only when both
  list calls succeed.
\<close>

lemma collectIteration_events:
  "events (snd (collectIteration metrics mc)) =
     events mc @
     (case fst (listPodMetricses mc) of
        None \<Rightarrow> [PodMetricsList None]
      | Some podItems \<Rightarrow>
          (case fst (listNodeMetricses (snd (listPodMetricses mc))) of
             None \<Rightarrow> [PodMetricsList (Some podItems), NodeMetricsList None]
           | Some nodeItems \<Rightarrow>
               [PodMetricsList (Some podItems), NodeMetricsList (Some nodeItems), Sleep interval]))"
  by (auto simp: collectIteration_def listPodMetricses_def listNodeMetricses_def sleep_def Let_def
      split: list.splits option.splits)

text \<open>
  C4, as the claim states it, fails on the code. One iteration whose pod list succeeds
  (one pod item) and whose node list fails: the snapshot is not the one the iteration
  started with, since the pod updates were made before the node list was called. The
  iteration also ends without the \<open>time.Sleep\<close> that ends an iteration whose two calls
  succeed (last two conjuncts).
\<close>

theorem failed_node_fetch_keeps_pod_updates:
  "fst (listPodMetricses
          \<lparr>podAnswers = [Some [\<lparr>pm_Name = ''web-1'', pm_Namespace = ''ns'', pm_Containers = []\<rparr>]],
           nodeAnswers = [None], events = []\<rparr>) \<noteq> None
 \<and> fst (listNodeMetricses (snd (listPodMetricses
          \<lparr>podAnswers = [Some [\<lparr>pm_Name = ''web-1'', pm_Namespace = ''ns'', pm_Containers = []\<rparr>]],
           nodeAnswers = [None], events = []\<rparr>))) = None
 \<and> fst (collectIteration \<lparr>PodMetricsMap = [], NodeMetricsMap = []\<rparr>
          \<lparr>podAnswers = [Some [\<lparr>pm_Name = ''web-1'', pm_Namespace = ''ns'', pm_Containers = []\<rparr>]],
           nodeAnswers = [None], events = []\<rparr>)
     \<noteq> \<lparr>PodMetricsMap = [], NodeMetricsMap = []\<rparr>
 \<and> events (snd (collectIteration \<lparr>PodMetricsMap = [], NodeMetricsMap = []\<rparr>
          \<lparr>podAnswers = [Some [\<lparr>pm_Name = ''web-1'', pm_Namespace = ''ns'', pm_Containers = []\<rparr>]],
           nodeAnswers = [None], events = []\<rparr>))
     = [PodMetricsList (Some [\<lparr>pm_Name = ''web-1'', pm_Namespace = ''ns'', pm_Containers = []\<rparr>]),
        NodeMetricsList None]
 \<and> events (snd (collectIteration \<lparr>PodMetricsMap = [], NodeMetricsMap = []\<rparr>
          \<lparr>podAnswers = [Some [\<lparr>pm_Name = ''web-1'', pm_Namespace = ''ns'', pm_Containers = []\<rparr>]],
           nodeAnswers = [Some []], events = []\<rparr>))
     = [PodMetricsList (Some [\<lparr>pm_Name = ''web-1'', pm_Namespace = ''ns'', pm_Containers = []\<rparr>]),
        NodeMetricsList (Some []), Sleep 30000000000]"
  by (simp add: collectIteration_def listPodMetricses_def listNodeMetricses_def updatePod_def
      sleep_def interval_def)

text \<open>
  C4, amended. When the pod list call of an iteration fails, the iteration leaves the
  snapshot as it was. When the pod list call succeeds and the node list call fails, the
  pod updates of the iteration are kept and the node map is the one before the iteration.
  Whatever an iteration did, the loop goes on with the next one: an iteration with
  \<open>i < iterations\<close> is followed by the loop from \<open>i + 1\<close> on what it left, and the loop
  from 0 makes one pod list call per scheduled iteration.
\<close>

theorem failed_fetch_skips_rest_of_iteration:
  "(fst (listPodMetricses mc) = None \<longrightarrow> fst (collectIteration metrics mc) = metrics)
 \<and> (\<forall>podItems. fst (listPodMetricses mc) = Some podItems
        \<and> fst (listNodeMetricses (snd (listPodMetricses mc))) = None \<longrightarrow>
      fst (collectIteration metrics mc)
        = metrics\<lparr>PodMetricsMap := fold updatePod podItems (PodMetricsMap metrics)\<rparr>)
 \<and> (i < iterations \<longrightarrow>
      collectLoop i iterations metrics mc
        = collectLoop (i + 1) iterations (fst (collectIteration metrics mc))
            (snd (collectIteration metrics mc)))
 \<and> length (filter isPodMetricsList (events (snd (collectLoop 0 iterations metrics mc))))
     = length (filter isPodMetricsList (events mc)) + nat iterations"
proof -
  have a: "fst (listPodMetricses mc) = None \<longrightarrow> fst (collectIteration metrics mc) = metrics"
    by (auto simp: collectIteration_def split: prod.splits option.splits)
  have b: "\<forall>podItems. fst (listPodMetricses mc) = Some podItems
        \<and> fst (listNodeMetricses (snd (listPodMetricses mc))) = None \<longrightarrow>
      fst (collectIteration metrics mc)
        = metrics\<lparr>PodMetricsMap := fold updatePod podItems (PodMetricsMap metrics)\<rparr>"
    by (auto simp: collectIteration_def Let_def split: prod.splits option.splits)
  have c: "i < iterations \<longrightarrow>
      collectLoop i iterations metrics mc
        = collectLoop (i + 1) iterations (fst (collectIteration metrics mc))
            (snd (collectIteration metrics mc))"
    by (simp add: collectLoop.simps [of i] case_prod_beta)
  have d: "length (filter isPodMetricsList
                     (events (snd (collectLoop 0 iterations metrics mc))))
     = length (filter isPodMetricsList (events mc)) + nat iterations"
    using collectLoop_pod_calls [of 0 iterations metrics mc] by simp
  from a b c d show ?thesis
    by blast
qed

theorem failed_fetch_skips_rest_of_iteration_witness:
  "fst (listPodMetricses \<lparr>podAnswers = [None, Some []], nodeAnswers = [], events = []\<rparr>) = None
 \<and> fst (collectIteration webSnapshot
          \<lparr>podAnswers = [None, Some []], nodeAnswers = [], events = []\<rparr>) = webSnapshot
 \<and> (0 :: int) < 3
 \<and> collectLoop 0 3 webSnapshot \<lparr>podAnswers = [None, Some []], nodeAnswers = [], events = []\<rparr>
     = collectLoop (0 + 1) 3
         (fst (collectIteration webSnapshot
                 \<lparr>podAnswers = [None, Some []], nodeAnswers = [], events = []\<rparr>))
         (snd (collectIteration webSnapshot
                 \<lparr>podAnswers = [None, Some []], nodeAnswers = [], events = []\<rparr>))
 \<and> length (filter isPodMetricsList
       (events (snd (collectLoop 0 3 webSnapshot
          \<lparr>podAnswers = [None, Some []], nodeAnswers = [], events = []\<rparr>)))) = 3
 \<and> fst (listPodMetricses
          \<lparr>podAnswers = [Some [\<lparr>pm_Name = ''web-1'', pm_Namespace = ''ns'', pm_Containers = []\<rparr>]],
           nodeAnswers = [None], events = []\<rparr>)
     = Some [\<lparr>pm_Name = ''web-1'', pm_Namespace = ''ns'', pm_Containers = []\<rparr>]
 \<and> fst (listNodeMetricses (snd (listPodMetricses
          \<lparr>podAnswers = [Some [\<lparr>pm_Name = ''web-1'', pm_Namespace = ''ns'', pm_Containers = []\<rparr>]],
           nodeAnswers = [None], events = []\<rparr>))) = None
 \<and> fst (collectIteration \<lparr>PodMetricsMap = [], NodeMetricsMap = []\<rparr>
          \<lparr>podAnswers = [Some [\<lparr>pm_Name = ''web-1'', pm_Namespace = ''ns'', pm_Containers = []\<rparr>]],
           nodeAnswers = [None], events = []\<rparr>)
     = \<lparr>PodMetricsMap = [(''web-1'', \<lparr>p_MaxCPU = 0, p_MaxMemory = 0, p_Namespace = ''ns'',
                                          Containers = []\<rparr>)],
        NodeMetricsMap = []\<rparr>"
proof -
  let ?item = "\<lparr>pm_Name = ''web-1'', pm_Namespace = ''ns'', pm_Containers = []\<rparr>"
  let ?mc' = "\<lparr>podAnswers = [Some [?item]], nodeAnswers = [None], events = []\<rparr>"
  let ?empty = "\<lparr>PodMetricsMap = [], NodeMetricsMap = []\<rparr>"
  note t' = failed_fetch_skips_rest_of_iteration [of ?mc' ?empty 0 0]
  have h1: "fst (listPodMetricses ?mc') = Some [?item]"
    by (simp add: listPodMetricses_def)
  have h2: "fst (listNodeMetricses (snd (listPodMetricses ?mc'))) = None"
    by (simp add: listPodMetricses_def listNodeMetricses_def)
  from t' h1 h2 have "fst (collectIteration ?empty ?mc')
      = ?empty\<lparr>PodMetricsMap := fold updatePod [?item] (PodMetricsMap ?empty)\<rparr>"
    by blast
  then have 4: "fst (collectIteration ?empty ?mc')
      = \<lparr>PodMetricsMap = [(''web-1'', \<lparr>p_MaxCPU = 0, p_MaxMemory = 0, p_Namespace = ''ns'',
                                          Containers = []\<rparr>)],
         NodeMetricsMap = []\<rparr>"
    by (simp add: updatePod_def)
  let ?mc = "\<lparr>podAnswers = [None, Some []], nodeAnswers = [], events = []\<rparr>"
  note t = failed_fetch_skips_rest_of_iteration [of ?mc webSnapshot 0 3]
  have h: "fst (listPodMetricses ?mc) = None"
    by (simp add: listPodMetricses_def)
  have lt: "(0 :: int) < 3"
    by simp
  from t h have 1: "fst (collectIteration webSnapshot ?mc) = webSnapshot"
    by blast
  from t lt have 2: "collectLoop 0 3 webSnapshot ?mc
     = collectLoop (0 + 1) 3 (fst (collectIteration webSnapshot ?mc))
         (snd (collectIteration webSnapshot ?mc))"
    by blast
  from t have "length (filter isPodMetricsList
       (events (snd (collectLoop 0 3 webSnapshot ?mc))))
     = length (filter isPodMetricsList (events ?mc)) + nat 3"
    by blast
  then have 3: "length (filter isPodMetricsList
       (events (snd (collectLoop 0 3 webSnapshot ?mc)))) = 3"
    by simp
  from h lt 1 2 3 h1 h2 4 show ?thesis
    by blast
qed

section \<open>The sampler: running maxima\<close>

text \<open>
  What one store and what a whole list of stores leave under a given key: the lookup
  after \<open>updateContainer\<close>, \<open>updatePod\<close> and \<open>updateNode\<close>, and after their folds.
\<close>

lemma updateContainer_lookup:
  "map_of (updateContainer u cs) c =
     (if cm_Name u = c
      then Some \<lparr>c_MaxCPU = (if sint (case map_of cs c of None \<Rightarrow> 0 | Some e \<Rightarrow> c_MaxCPU e) < sint (cm_Cpu u)
                              then cm_Cpu u else (case map_of cs c of None \<Rightarrow> 0 | Some e \<Rightarrow> c_MaxCPU e)),
                 c_MaxMemory = (if sint (case map_of cs c of None \<Rightarrow> 0 | Some e \<Rightarrow> c_MaxMemory e) < sint (cm_Memory u)
                              then cm_Memory u else (case map_of cs c of None \<Rightarrow> 0 | Some e \<Rightarrow> c_MaxMemory e))\<rparr>
      else map_of cs c)"
  by (cases "map_of cs (cm_Name u)") (auto simp: updateContainer_def Let_def update_conv')

lemma fold_updateContainer_lookup:
  "map_of (fold updateContainer us cs) c =
     (if filter (\<lambda>u. cm_Name u = c) us = [] then map_of cs c
      else Some \<lparr>c_MaxCPU = fold (\<lambda>v cur. if sint cur < sint v then v else cur)
                     (map cm_Cpu (filter (\<lambda>u. cm_Name u = c) us))
                     (case map_of cs c of None \<Rightarrow> 0 | Some e \<Rightarrow> c_MaxCPU e),
                 c_MaxMemory = fold (\<lambda>v cur. if sint cur < sint v then v else cur)
                     (map cm_Memory (filter (\<lambda>u. cm_Name u = c) us))
                     (case map_of cs c of None \<Rightarrow> 0 | Some e \<Rightarrow> c_MaxMemory e)\<rparr>)"
proof (induction us arbitrary: cs)
  case Nil
  show ?case by simp
next
  case (Cons u us)
  show ?case
  proof (cases "cm_Name u = c")
    case True
    then show ?thesis
      by (simp add: Cons.IH updateContainer_lookup)
  next
    case False
    then show ?thesis
      by (simp add: Cons.IH updateContainer_lookup)
  qed
qed

lemma sint_fold_max:
  "sint (fold (\<lambda>v cur. if sint cur < sint v then v else cur) vs (s :: int64))
     = Max (insert (sint s) (sint ` set vs))"
proof (induction vs arbitrary: s)
  case Nil
  show ?case by simp
next
  case (Cons v vs)
  have "Max (insert (sint s) (sint ` set (v # vs)))
          = Max (insert (max (sint s) (sint v)) (sint ` set vs))"
  proof (cases "set vs = {}")
    case True then show ?thesis by (simp add: max.commute)
  next
    case False
    then show ?thesis
      by (simp add: insert_commute max.assoc max.left_commute)
  qed
  also have "max (sint s) (sint v) = sint (if sint s < sint v then v else s)"
    by (simp add: max_def)
  finally show ?case
    by (simp add: Cons.IH)
qed


lemma updatePod_lookup:
  "map_of (updatePod item pms) p =
     (if pm_Name item = p
      then Some ((case map_of pms p of
                    None \<Rightarrow> \<lparr>p_MaxCPU = 0, p_MaxMemory = 0, p_Namespace = pm_Namespace item,
                             Containers = []\<rparr>
                  | Some e \<Rightarrow> e)
                 \<lparr>Containers := fold updateContainer (pm_Containers item)
                    (Containers (case map_of pms p of
                       None \<Rightarrow> \<lparr>p_MaxCPU = 0, p_MaxMemory = 0, p_Namespace = pm_Namespace item,
                                Containers = []\<rparr>
                     | Some e \<Rightarrow> e))\<rparr>)
      else map_of pms p)"
  by (auto simp: updatePod_def Let_def update_conv')

lemma fold_updatePod_lookup:
  "map_of (fold updatePod items pms) p =
     (if filter (\<lambda>i. pm_Name i = p) items = [] then map_of pms p
      else Some ((case map_of pms p of
                    None \<Rightarrow> \<lparr>p_MaxCPU = 0, p_MaxMemory = 0,
                             p_Namespace = pm_Namespace (hd (filter (\<lambda>i. pm_Name i = p) items)),
                             Containers = []\<rparr>
                  | Some e \<Rightarrow> e)
                 \<lparr>Containers := fold updateContainer
                    (concat (map pm_Containers (filter (\<lambda>i. pm_Name i = p) items)))
                    (case map_of pms p of None \<Rightarrow> [] | Some e \<Rightarrow> Containers e)\<rparr>))"
proof (induction items arbitrary: pms)
  case Nil
  show ?case by simp
next
  case (Cons item items)
  show ?case
  proof (cases "pm_Name item = p")
    case False
    then show ?thesis
      by (cases "map_of pms p") (simp_all add: Cons.IH updatePod_lookup)
  next
    case True
    then show ?thesis
      by (cases "map_of pms p") (simp_all add: Cons.IH updatePod_lookup)
  qed
qed

lemma fold_updatePod_distinct:
  "distinct (map fst pms) \<Longrightarrow> distinct (map fst (fold updatePod items pms))"
  by (induction items arbitrary: pms) (simp_all add: updatePod_def Let_def distinct_update)

lemma updateNode_lookup:
  "map_of (updateNode u ns) n =
     (if nm_Name u = n
      then Some \<lparr>n_MaxCPU = (if sint (case map_of ns n of None \<Rightarrow> 0 | Some e \<Rightarrow> n_MaxCPU e) < sint (nm_Cpu u)
                              then nm_Cpu u else (case map_of ns n of None \<Rightarrow> 0 | Some e \<Rightarrow> n_MaxCPU e)),
                 n_MaxMemory = (if sint (case map_of ns n of None \<Rightarrow> 0 | Some e \<Rightarrow> n_MaxMemory e) < sint (nm_Memory u)
                              then nm_Memory u else (case map_of ns n of None \<Rightarrow> 0 | Some e \<Rightarrow> n_MaxMemory e))\<rparr>
      else map_of ns n)"
  by (cases "map_of ns (nm_Name u)") (auto simp: updateNode_def Let_def update_conv')

lemma fold_updateNode_lookup:
  "map_of (fold updateNode us ns) n =
     (if filter (\<lambda>u. nm_Name u = n) us = [] then map_of ns n
      else Some \<lparr>n_MaxCPU = fold (\<lambda>v cur. if sint cur < sint v then v else cur)
                     (map nm_Cpu (filter (\<lambda>u. nm_Name u = n) us))
                     (case map_of ns n of None \<Rightarrow> 0 | Some e \<Rightarrow> n_MaxCPU e),
                 n_MaxMemory = fold (\<lambda>v cur. if sint cur < sint v then v else cur)
                     (map nm_Memory (filter (\<lambda>u. nm_Name u = n) us))
                     (case map_of ns n of None \<Rightarrow> 0 | Some e \<Rightarrow> n_MaxMemory e)\<rparr>)"
proof (induction us arbitrary: ns)
  case Nil
  show ?case by simp
next
  case (Cons u us)
  show ?case
  proof (cases "nm_Name u = n")
    case True
    then show ?thesis
      by (simp add: Cons.IH updateNode_lookup)
  next
    case False
    then show ?thesis
      by (simp add: Cons.IH updateNode_lookup)
  qed
qed


lemma sint_fold_max_ge:
  "sint (s :: int64) \<le> sint (fold (\<lambda>v cur. if sint cur < sint v then v else cur) vs s)"
  by (simp add: sint_fold_max)

lemma Max_insert_zero_nonneg:
  assumes "obs \<noteq> []" and "\<forall>u \<in> set obs. 0 \<le> sint (f u :: int64)"
  shows "Max (insert 0 (sint ` f ` set obs)) = Max (sint ` f ` set obs)"
proof -
  from assms(1) obtain u where u: "u \<in> set obs"
    by (cases obs) auto
  with assms(2) have "0 \<le> sint (f u)"
    by simp
  also from u have "sint (f u) \<le> Max (sint ` f ` set obs)"
    by simp
  finally have "max 0 (Max (sint ` f ` set obs)) = Max (sint ` f ` set obs)"
    by simp
  moreover from assms(1) have "Max (insert 0 (sint ` f ` set obs)) = max 0 (Max (sint ` f ` set obs))"
    by simp
  ultimately show ?thesis
    by simp
qed

lemma fold_updatePod_grows:
  assumes "map_of pms p = Some e" and "map_of (Containers e) c = Some cm"
  shows "\<exists>e' cm'. map_of (fold updatePod items pms) p = Some e'
           \<and> map_of (Containers e') c = Some cm'
           \<and> sint (c_MaxCPU cm) \<le> sint (c_MaxCPU cm')
           \<and> sint (c_MaxMemory cm) \<le> sint (c_MaxMemory cm')"
  using assms
  by (simp add: fold_updatePod_lookup fold_updateContainer_lookup sint_fold_max_ge)

lemma fold_updateNode_grows:
  assumes "map_of nms n = Some nm"
  shows "\<exists>nm'. map_of (fold updateNode items nms) n = Some nm'
           \<and> sint (n_MaxCPU nm) \<le> sint (n_MaxCPU nm')
           \<and> sint (n_MaxMemory nm) \<le> sint (n_MaxMemory nm')"
  using assms
  by (simp add: fold_updateNode_lookup sint_fold_max_ge)

lemma podSamples_append: "podSamples (xs @ ys) = podSamples xs @ podSamples ys"
  by (induction xs rule: podSamples.induct) simp_all

lemma nodeSamples_append: "nodeSamples (xs @ ys) = nodeSamples xs @ nodeSamples ys"
  by (induction xs rule: nodeSamples.induct) simp_all

lemma collectIteration_trace:
  "\<exists>new. events (snd (collectIteration metrics mc)) = events mc @ new
      \<and> PodMetricsMap (fst (collectIteration metrics mc))
           = fold updatePod (podSamples new) (PodMetricsMap metrics)
      \<and> NodeMetricsMap (fst (collectIteration metrics mc))
           = fold updateNode (nodeSamples new) (NodeMetricsMap metrics)"
  by (auto simp: collectIteration_def listPodMetricses_def listNodeMetricses_def sleep_def Let_def
      split: list.splits option.splits)

lemma collectLoop_trace:
  "\<exists>new. events (snd (collectLoop i iterations metrics mc)) = events mc @ new
      \<and> PodMetricsMap (fst (collectLoop i iterations metrics mc))
           = fold updatePod (podSamples new) (PodMetricsMap metrics)
      \<and> NodeMetricsMap (fst (collectLoop i iterations metrics mc))
           = fold updateNode (nodeSamples new) (NodeMetricsMap metrics)"
proof (induction i iterations metrics mc rule: collectLoop.induct)
  case (1 i iterations metrics mc)
  show ?case
  proof (cases "i < iterations")
    case False
    then show ?thesis
      by (simp add: collectLoop.simps)
  next
    case True
    obtain metrics' mc' where it: "collectIteration metrics mc = (metrics', mc')"
      by (cases "collectIteration metrics mc")
    from collectIteration_trace [of metrics mc] it obtain new1 where
      n1: "events mc' = events mc @ new1"
          "PodMetricsMap metrics' = fold updatePod (podSamples new1) (PodMetricsMap metrics)"
          "NodeMetricsMap metrics' = fold updateNode (nodeSamples new1) (NodeMetricsMap metrics)"
      by auto
    from "1.IH" [OF True it [symmetric]] obtain new2 where
      n2: "events (snd (collectLoop (i + 1) iterations metrics' mc')) = events mc' @ new2"
          "PodMetricsMap (fst (collectLoop (i + 1) iterations metrics' mc'))
             = fold updatePod (podSamples new2) (PodMetricsMap metrics')"
          "NodeMetricsMap (fst (collectLoop (i + 1) iterations metrics' mc'))
             = fold updateNode (nodeSamples new2) (NodeMetricsMap metrics')"
      by auto
    have step: "collectLoop i iterations metrics mc = collectLoop (i + 1) iterations metrics' mc'"
      using True it by (simp add: collectLoop.simps)
    show ?thesis
      unfolding step
      by (rule exI [of _ "new1 @ new2"])
         (simp add: n1 n2 podSamples_append nodeSamples_append)
  qed
qed

lemma collectMetrics_trace:
  assumes "fst (listNodeMetricses mc) = Some probe"
  shows "\<exists>new. events (snd (collectMetrics mc period)) = events mc @ NodeMetricsList (Some probe) # new
      \<and> fst (collectMetrics mc period)
           = Inr \<lparr>PodMetricsMap = fold updatePod (podSamples new) [],
                  NodeMetricsMap = fold updateNode (nodeSamples new) []\<rparr>"
proof -
  obtain mc1 where mc1: "listNodeMetricses mc = (Some probe, mc1)"
    using assms by (cases "listNodeMetricses mc") simp
  then have ev1: "events mc1 = events mc @ [NodeMetricsList (Some probe)]"
    by (auto simp: listNodeMetricses_def split: list.splits)
  let ?m0 = "\<lparr>PodMetricsMap = [], NodeMetricsMap = []\<rparr>"
  let ?r = "collectLoop 0 (period sdiv interval) ?m0 mc1"
  from collectLoop_trace [of 0 "period sdiv interval" ?m0 mc1] obtain new where
    n: "events (snd ?r) = events mc1 @ new"
       "PodMetricsMap (fst ?r) = fold updatePod (podSamples new) []"
       "NodeMetricsMap (fst ?r) = fold updateNode (nodeSamples new) []"
    by auto
  have res: "collectMetrics mc period = (Inr (fst ?r), snd ?r)"
    by (simp add: collectMetrics_def checkMetricsServer_def mc1 Let_def case_prod_beta)
  have "fst ?r = \<lparr>PodMetricsMap = fold updatePod (podSamples new) [],
                  NodeMetricsMap = fold updateNode (nodeSamples new) []\<rparr>"
    using n(2,3) by (cases "fst ?r") simp
  with res n(1) ev1 show ?thesis
    by simp
qed


lemma fold_updatePod_final:
  assumes "obs = filter (\<lambda>u. cm_Name u = c)
                   (concat (map pm_Containers (filter (\<lambda>it. pm_Name it = p) items)))"
    and "obs \<noteq> []"
  shows "\<exists>e cm. map_of (fold updatePod items []) p = Some e
           \<and> map_of (Containers e) c = Some cm
           \<and> sint (c_MaxCPU cm) = Max (insert 0 (sint ` cm_Cpu ` set obs))
           \<and> sint (c_MaxMemory cm) = Max (insert 0 (sint ` cm_Memory ` set obs))"
proof -
  from assms have its: "filter (\<lambda>it. pm_Name it = p) items \<noteq> []"
    by auto
  from assms its show ?thesis
    by (simp add: fold_updatePod_lookup fold_updateContainer_lookup sint_fold_max image_image)
qed

lemma fold_updateNode_final:
  assumes "obs = filter (\<lambda>u. nm_Name u = n) items"
    and "obs \<noteq> []"
  shows "\<exists>nm. map_of (fold updateNode items []) n = Some nm
           \<and> sint (n_MaxCPU nm) = Max (insert 0 (sint ` nm_Cpu ` set obs))
           \<and> sint (n_MaxMemory nm) = Max (insert 0 (sint ` nm_Memory ` set obs))"
  using assms
  by (simp add: fold_updateNode_lookup sint_fold_max image_image)

text \<open>
  C6. A run of \<open>collectMetrics\<close> whose probe succeeds. \<open>new\<close> is what the run adds to the
  record of events after the probe, so \<open>podSamples new\<close> and \<open>nodeSamples new\<close> are the
  items of the list calls that succeeded during the run. For a container \<open>c\<close> of a pod
  named \<open>p\<close> that was seen at least once, the snapshot holds an entry whose \<open>MaxCPU\<close> and
  \<open>MaxMemory\<close> are the greatest of zero (the value a new entry starts with) and the CPU,
  respectively memory, values seen for it; when the values seen are not negative, as
  usages are, that is the greatest value seen. The same holds for a node \<open>n\<close>. Last two
  conjuncts: whatever the loop does from any snapshot and client (any number of
  iterations, failed calls included), an entry that exists before still exists after,
  with maxima at least as large. The order is that of the signed readings, the one the
  program compares with.
\<close>

theorem maxima_grow_to_true_maxima:
  assumes "fst (listNodeMetricses mc) = Some probe"
  shows "\<exists>new snapshot.
      events (snd (collectMetrics mc period)) = events mc @ NodeMetricsList (Some probe) # new
    \<and> fst (collectMetrics mc period) = Inr snapshot
    \<and> (\<forall>obs. obs = filter (\<lambda>u. cm_Name u = c)
                  (concat (map pm_Containers (filter (\<lambda>it. pm_Name it = p) (podSamples new))))
           \<and> obs \<noteq> [] \<longrightarrow>
         (\<exists>e cm. map_of (PodMetricsMap snapshot) p = Some e
            \<and> map_of (Containers e) c = Some cm
            \<and> sint (c_MaxCPU cm) = Max (insert 0 (sint ` cm_Cpu ` set obs))
            \<and> sint (c_MaxMemory cm) = Max (insert 0 (sint ` cm_Memory ` set obs))
            \<and> ((\<forall>u \<in> set obs. 0 \<le> sint (cm_Cpu u)) \<longrightarrow>
                  sint (c_MaxCPU cm) = Max (sint ` cm_Cpu ` set obs))
            \<and> ((\<forall>u \<in> set obs. 0 \<le> sint (cm_Memory u)) \<longrightarrow>
                  sint (c_MaxMemory cm) = Max (sint ` cm_Memory ` set obs))))
    \<and> (\<forall>obs. obs = filter (\<lambda>u. nm_Name u = n) (nodeSamples new)
           \<and> obs \<noteq> [] \<longrightarrow>
         (\<exists>nm. map_of (NodeMetricsMap snapshot) n = Some nm
            \<and> sint (n_MaxCPU nm) = Max (insert 0 (sint ` nm_Cpu ` set obs))
            \<and> sint (n_MaxMemory nm) = Max (insert 0 (sint ` nm_Memory ` set obs))
            \<and> ((\<forall>u \<in> set obs. 0 \<le> sint (nm_Cpu u)) \<longrightarrow>
                  sint (n_MaxCPU nm) = Max (sint ` nm_Cpu ` set obs))
            \<and> ((\<forall>u \<in> set obs. 0 \<le> sint (nm_Memory u)) \<longrightarrow>
                  sint (n_MaxMemory nm) = Max (sint ` nm_Memory ` set obs))))
    \<and> (\<forall>metrics i iterations mc' e cm.
          map_of (PodMetricsMap metrics) p = Some e \<and> map_of (Containers e) c = Some cm \<longrightarrow>
          (\<exists>e' cm'. map_of (PodMetricsMap (fst (collectLoop i iterations metrics mc'))) p = Some e'
             \<and> map_of (Containers e') c = Some cm'
             \<and> sint (c_MaxCPU cm) \<le> sint (c_MaxCPU cm')
             \<and> sint (c_MaxMemory cm) \<le> sint (c_MaxMemory cm')))
    \<and> (\<forall>metrics i iterations mc' nm.
          map_of (NodeMetricsMap metrics) n = Some nm \<longrightarrow>
          (\<exists>nm'. map_of (NodeMetricsMap (fst (collectLoop i iterations metrics mc'))) n = Some nm'
             \<and> sint (n_MaxCPU nm) \<le> sint (n_MaxCPU nm')
             \<and> sint (n_MaxMemory nm) \<le> sint (n_MaxMemory nm')))"
proof -
  from collectMetrics_trace [OF assms, of period] obtain new where
    ev: "events (snd (collectMetrics mc period)) = events mc @ NodeMetricsList (Some probe) # new"
    and res: "fst (collectMetrics mc period)
           = Inr \<lparr>PodMetricsMap = fold updatePod (podSamples new) [],
                  NodeMetricsMap = fold updateNode (nodeSamples new) []\<rparr>"
    by blast
  let ?snapshot = "\<lparr>PodMetricsMap = fold updatePod (podSamples new) [],
                    NodeMetricsMap = fold updateNode (nodeSamples new) []\<rparr>"
  have 3: "\<forall>obs. obs = filter (\<lambda>u. cm_Name u = c)
                  (concat (map pm_Containers (filter (\<lambda>it. pm_Name it = p) (podSamples new))))
           \<and> obs \<noteq> [] \<longrightarrow>
         (\<exists>e cm. map_of (PodMetricsMap ?snapshot) p = Some e
            \<and> map_of (Containers e) c = Some cm
            \<and> sint (c_MaxCPU cm) = Max (insert 0 (sint ` cm_Cpu ` set obs))
            \<and> sint (c_MaxMemory cm) = Max (insert 0 (sint ` cm_Memory ` set obs))
            \<and> ((\<forall>u \<in> set obs. 0 \<le> sint (cm_Cpu u)) \<longrightarrow>
                  sint (c_MaxCPU cm) = Max (sint ` cm_Cpu ` set obs))
            \<and> ((\<forall>u \<in> set obs. 0 \<le> sint (cm_Memory u)) \<longrightarrow>
                  sint (c_MaxMemory cm) = Max (sint ` cm_Memory ` set obs)))"
  proof (intro allI impI)
    fix obs
    assume a: "obs = filter (\<lambda>u. cm_Name u = c)
                  (concat (map pm_Containers (filter (\<lambda>it. pm_Name it = p) (podSamples new))))
           \<and> obs \<noteq> []"
    note o = a [THEN conjunct1] and ne = a [THEN conjunct2]
    from fold_updatePod_final [OF o ne] obtain e cm where
      e: "map_of (fold updatePod (podSamples new) []) p = Some e"
      and cm: "map_of (Containers e) c = Some cm"
      and cpu: "sint (c_MaxCPU cm) = Max (insert 0 (sint ` cm_Cpu ` set obs))"
      and mem: "sint (c_MaxMemory cm) = Max (insert 0 (sint ` cm_Memory ` set obs))"
      by blast
    have cpu': "sint (c_MaxCPU cm) = Max (sint ` cm_Cpu ` set obs)"
      if "\<forall>u \<in> set obs. 0 \<le> sint (cm_Cpu u)"
      using cpu Max_insert_zero_nonneg [OF ne that] by (simp only:)
    have mem': "sint (c_MaxMemory cm) = Max (sint ` cm_Memory ` set obs)"
      if "\<forall>u \<in> set obs. 0 \<le> sint (cm_Memory u)"
      using mem Max_insert_zero_nonneg [OF ne that] by (simp only:)
    from e have e': "map_of (PodMetricsMap ?snapshot) p = Some e"
      by simp
    show "\<exists>e cm. map_of (PodMetricsMap ?snapshot) p = Some e
            \<and> map_of (Containers e) c = Some cm
            \<and> sint (c_MaxCPU cm) = Max (insert 0 (sint ` cm_Cpu ` set obs))
            \<and> sint (c_MaxMemory cm) = Max (insert 0 (sint ` cm_Memory ` set obs))
            \<and> ((\<forall>u \<in> set obs. 0 \<le> sint (cm_Cpu u)) \<longrightarrow>
                  sint (c_MaxCPU cm) = Max (sint ` cm_Cpu ` set obs))
            \<and> ((\<forall>u \<in> set obs. 0 \<le> sint (cm_Memory u)) \<longrightarrow>
                  sint (c_MaxMemory cm) = Max (sint ` cm_Memory ` set obs))"
      by (rule exI [of _ e], rule exI [of _ cm]) (intro conjI impI e' cm cpu mem cpu' mem')
  qed
  have 4: "\<forall>obs. obs = filter (\<lambda>u. nm_Name u = n) (nodeSamples new)
           \<and> obs \<noteq> [] \<longrightarrow>
         (\<exists>nm. map_of (NodeMetricsMap ?snapshot) n = Some nm
            \<and> sint (n_MaxCPU nm) = Max (insert 0 (sint ` nm_Cpu ` set obs))
            \<and> sint (n_MaxMemory nm) = Max (insert 0 (sint ` nm_Memory ` set obs))
            \<and> ((\<forall>u \<in> set obs. 0 \<le> sint (nm_Cpu u)) \<longrightarrow>
                  sint (n_MaxCPU nm) = Max (sint ` nm_Cpu ` set obs))
            \<and> ((\<forall>u \<in> set obs. 0 \<le> sint (nm_Memory u)) \<longrightarrow>
                  sint (n_MaxMemory nm) = Max (sint ` nm_Memory ` set obs)))"
  proof (intro allI impI)
    fix obs
    assume a: "obs = filter (\<lambda>u. nm_Name u = n) (nodeSamples new) \<and> obs \<noteq> []"
    note o = a [THEN conjunct1] and ne = a [THEN conjunct2]
    from fold_updateNode_final [OF o ne] obtain nm where
      nm: "map_of (fold updateNode (nodeSamples new) []) n = Some nm"
      and cpu: "sint (n_MaxCPU nm) = Max (insert 0 (sint ` nm_Cpu ` set obs))"
      and mem: "sint (n_MaxMemory nm) = Max (insert 0 (sint ` nm_Memory ` set obs))"
      by blast
    have cpu': "sint (n_MaxCPU nm) = Max (sint ` nm_Cpu ` set obs)"
      if "\<forall>u \<in> set obs. 0 \<le> sint (nm_Cpu u)"
      using cpu Max_insert_zero_nonneg [OF ne that] by (simp only:)
    have mem': "sint (n_MaxMemory nm) = Max (sint ` nm_Memory ` set obs)"
      if "\<forall>u \<in> set obs. 0 \<le> sint (nm_Memory u)"
      using mem Max_insert_zero_nonneg [OF ne that] by (simp only:)
    from nm have nm': "map_of (NodeMetricsMap ?snapshot) n = Some nm"
      by simp
    show "\<exists>nm. map_of (NodeMetricsMap ?snapshot) n = Some nm
            \<and> sint (n_MaxCPU nm) = Max (insert 0 (sint ` nm_Cpu ` set obs))
            \<and> sint (n_MaxMemory nm) = Max (insert 0 (sint ` nm_Memory ` set obs))
            \<and> ((\<forall>u \<in> set obs. 0 \<le> sint (nm_Cpu u)) \<longrightarrow>
                  sint (n_MaxCPU nm) = Max (sint ` nm_Cpu ` set obs))
            \<and> ((\<forall>u \<in> set obs. 0 \<le> sint (nm_Memory u)) \<longrightarrow>
                  sint (n_MaxMemory nm) = Max (sint ` nm_Memory ` set obs))"
      by (rule exI [of _ nm]) (intro conjI impI nm' cpu mem cpu' mem')
  qed
  have growPods: "\<exists>e' cm'. map_of (PodMetricsMap (fst (collectLoop i iterations metrics mc'))) p = Some e'
             \<and> map_of (Containers e') c = Some cm'
             \<and> sint (c_MaxCPU cm) \<le> sint (c_MaxCPU cm')
             \<and> sint (c_MaxMemory cm) \<le> sint (c_MaxMemory cm')"
    if "map_of (PodMetricsMap metrics) p = Some e" "map_of (Containers e) c = Some cm"
    for metrics i iterations mc' e cm
  proof -
    from collectLoop_trace [of i iterations metrics mc'] obtain new' where
      "PodMetricsMap (fst (collectLoop i iterations metrics mc'))
         = fold updatePod (podSamples new') (PodMetricsMap metrics)"
      by blast
    then show ?thesis
      using fold_updatePod_grows [OF that, of "podSamples new'"] by (simp only:)
  qed
  have growNodes: "\<exists>nm'. map_of (NodeMetricsMap (fst (collectLoop i iterations metrics mc'))) n = Some nm'
             \<and> sint (n_MaxCPU nm) \<le> sint (n_MaxCPU nm')
             \<and> sint (n_MaxMemory nm) \<le> sint (n_MaxMemory nm')"
    if "map_of (NodeMetricsMap metrics) n = Some nm"
    for metrics i iterations mc' nm
  proof -
    from collectLoop_trace [of i iterations metrics mc'] obtain new' where
      "NodeMetricsMap (fst (collectLoop i iterations metrics mc'))
         = fold updateNode (nodeSamples new') (NodeMetricsMap metrics)"
      by blast
    then show ?thesis
      using fold_updateNode_grows [OF that, of "nodeSamples new'"] by (simp only:)
  qed
  have 5: "\<forall>metrics i iterations mc' e cm.
          map_of (PodMetricsMap metrics) p = Some e \<and> map_of (Containers e) c = Some cm \<longrightarrow>
          (\<exists>e' cm'. map_of (PodMetricsMap (fst (collectLoop i iterations metrics mc'))) p = Some e'
             \<and> map_of (Containers e') c = Some cm'
             \<and> sint (c_MaxCPU cm) \<le> sint (c_MaxCPU cm')
             \<and> sint (c_MaxMemory cm) \<le> sint (c_MaxMemory cm'))"
  proof (intro allI impI)
    fix metrics :: MetricsData and i iterations mc' e cm
    assume a: "map_of (PodMetricsMap metrics) p = Some e \<and> map_of (Containers e) c = Some cm"
    show "\<exists>e' cm'. map_of (PodMetricsMap (fst (collectLoop i iterations metrics mc'))) p = Some e'
             \<and> map_of (Containers e') c = Some cm'
             \<and> sint (c_MaxCPU cm) \<le> sint (c_MaxCPU cm')
             \<and> sint (c_MaxMemory cm) \<le> sint (c_MaxMemory cm')"
      by (rule growPods [OF a [THEN conjunct1] a [THEN conjunct2]])
  qed
  have 6: "\<forall>metrics i iterations mc' nm.
          map_of (NodeMetricsMap metrics) n = Some nm \<longrightarrow>
          (\<exists>nm'. map_of (NodeMetricsMap (fst (collectLoop i iterations metrics mc'))) n = Some nm'
             \<and> sint (n_MaxCPU nm) \<le> sint (n_MaxCPU nm')
             \<and> sint (n_MaxMemory nm) \<le> sint (n_MaxMemory nm'))"
  proof (intro allI impI)
    fix metrics :: MetricsData and i iterations mc' nm
    assume a: "map_of (NodeMetricsMap metrics) n = Some nm"
    show "\<exists>nm'. map_of (NodeMetricsMap (fst (collectLoop i iterations metrics mc'))) n = Some nm'
             \<and> sint (n_MaxCPU nm) \<le> sint (n_MaxCPU nm')
             \<and> sint (n_MaxMemory nm) \<le> sint (n_MaxMemory nm')"
      by (rule growNodes [OF a])
  qed
  show ?thesis
    by (rule exI [of _ new], rule exI [of _ ?snapshot]) (intro conjI ev res 3 4 5 6)
qed

theorem maxima_grow_to_true_maxima_witness:
  "fst (listNodeMetricses sampledClient) = Some []
   \<and> fst (collectMetrics sampledClient 90000000000) = Inr sampledSnapshot
   \<and> (\<exists>e cm. map_of (PodMetricsMap sampledSnapshot) ''web-1'' = Some e
         \<and> map_of (Containers e) ''app'' = Some cm
         \<and> sint (c_MaxCPU cm) = 300 \<and> sint (c_MaxMemory cm) = 50)
   \<and> (\<exists>nm. map_of (NodeMetricsMap sampledSnapshot) ''node-a'' = Some nm
         \<and> sint (n_MaxCPU nm) = 1000 \<and> sint (n_MaxMemory nm) = 7)
   \<and> (\<exists>e' cm'. map_of (PodMetricsMap (fst (collectLoop 0 2 sampledSnapshot sampledClient))) ''web-1''
           = Some e'
         \<and> map_of (Containers e') ''app'' = Some cm'
         \<and> 300 \<le> sint (c_MaxCPU cm') \<and> 50 \<le> sint (c_MaxMemory cm'))
   \<and> (\<exists>nm'. map_of (NodeMetricsMap (fst (collectLoop 0 2 sampledSnapshot sampledClient))) ''node-a''
           = Some nm'
         \<and> 1000 \<le> sint (n_MaxCPU nm') \<and> 7 \<le> sint (n_MaxMemory nm'))"
proof -
  have probe: "fst (listNodeMetricses sampledClient) = Some []"
    by (simp add: sampledClient_def listNodeMetricses_def)
  have run: "collectMetrics sampledClient 90000000000 =
    (Inr sampledSnapshot,
     \<lparr>podAnswers = [], nodeAnswers = [],
      events =
       [NodeMetricsList (Some []),
        PodMetricsList (Some [\<lparr>pm_Name = ''web-1'', pm_Namespace = ''ns'',
                 pm_Containers = [\<lparr>cm_Name = ''app'', cm_Cpu = 100, cm_Memory = 50\<rparr>]\<rparr>]),
        NodeMetricsList (Some [\<lparr>nm_Name = ''node-a'', nm_Cpu = 1000, nm_Memory = 5\<rparr>]),
        Sleep 30000000000,
        PodMetricsList None,
        PodMetricsList (Some [\<lparr>pm_Name = ''web-1'', pm_Namespace = ''ns'',
                 pm_Containers = [\<lparr>cm_Name = ''app'', cm_Cpu = 300, cm_Memory = 40\<rparr>]\<rparr>]),
        NodeMetricsList (Some [\<lparr>nm_Name = ''node-a'', nm_Cpu = 900, nm_Memory = 7\<rparr>]),
        Sleep 30000000000]\<rparr>)"
    by (simp add: sampledClient_def sampledSnapshot_def collectMetrics_def checkMetricsServer_def
        listNodeMetricses_def listPodMetricses_def interval_def collectIteration_def updatePod_def
        updateContainer_def updateNode_def sleep_def signed_divide_int_def collectLoop.simps)
  let ?new = "[PodMetricsList (Some [\<lparr>pm_Name = ''web-1'', pm_Namespace = ''ns'',
                 pm_Containers = [\<lparr>cm_Name = ''app'', cm_Cpu = 100, cm_Memory = 50\<rparr>]\<rparr>]),
        NodeMetricsList (Some [\<lparr>nm_Name = ''node-a'', nm_Cpu = 1000, nm_Memory = 5\<rparr>]),
        Sleep 30000000000,
        PodMetricsList None,
        PodMetricsList (Some [\<lparr>pm_Name = ''web-1'', pm_Namespace = ''ns'',
                 pm_Containers = [\<lparr>cm_Name = ''app'', cm_Cpu = 300, cm_Memory = 40\<rparr>]\<rparr>]),
        NodeMetricsList (Some [\<lparr>nm_Name = ''node-a'', nm_Cpu = 900, nm_Memory = 7\<rparr>]),
        Sleep 30000000000]"
  let ?pobs = "[\<lparr>cm_Name = ''app'', cm_Cpu = 100, cm_Memory = 50\<rparr>,
                \<lparr>cm_Name = ''app'', cm_Cpu = 300, cm_Memory = 40\<rparr>]"
  let ?nobs = "[\<lparr>nm_Name = ''node-a'', nm_Cpu = 1000, nm_Memory = 5\<rparr>,
                \<lparr>nm_Name = ''node-a'', nm_Cpu = 900, nm_Memory = 7\<rparr>]"
  from maxima_grow_to_true_maxima
         [OF probe, where period = 90000000000 and c = "''app''" and p = "''web-1''"
            and n = "''node-a''"]
  obtain new snapshot where
    ev: "events (snd (collectMetrics sampledClient 90000000000))
           = events sampledClient @ NodeMetricsList (Some []) # new"
    and res: "fst (collectMetrics sampledClient 90000000000) = Inr snapshot"
    and pods: "\<forall>obs. obs = filter (\<lambda>u. cm_Name u = ''app'')
                  (concat (map pm_Containers (filter (\<lambda>it. pm_Name it = ''web-1'') (podSamples new))))
           \<and> obs \<noteq> [] \<longrightarrow>
         (\<exists>e cm. map_of (PodMetricsMap snapshot) ''web-1'' = Some e
            \<and> map_of (Containers e) ''app'' = Some cm
            \<and> sint (c_MaxCPU cm) = Max (insert 0 (sint ` cm_Cpu ` set obs))
            \<and> sint (c_MaxMemory cm) = Max (insert 0 (sint ` cm_Memory ` set obs))
            \<and> ((\<forall>u \<in> set obs. 0 \<le> sint (cm_Cpu u)) \<longrightarrow>
                  sint (c_MaxCPU cm) = Max (sint ` cm_Cpu ` set obs))
            \<and> ((\<forall>u \<in> set obs. 0 \<le> sint (cm_Memory u)) \<longrightarrow>
                  sint (c_MaxMemory cm) = Max (sint ` cm_Memory ` set obs)))"
    and nodes: "\<forall>obs. obs = filter (\<lambda>u. nm_Name u = ''node-a'') (nodeSamples new)
           \<and> obs \<noteq> [] \<longrightarrow>
         (\<exists>nm. map_of (NodeMetricsMap snapshot) ''node-a'' = Some nm
            \<and> sint (n_MaxCPU nm) = Max (insert 0 (sint ` nm_Cpu ` set obs))
            \<and> sint (n_MaxMemory nm) = Max (insert 0 (sint ` nm_Memory ` set obs))
            \<and> ((\<forall>u \<in> set obs. 0 \<le> sint (nm_Cpu u)) \<longrightarrow>
                  sint (n_MaxCPU nm) = Max (sint ` nm_Cpu ` set obs))
            \<and> ((\<forall>u \<in> set obs. 0 \<le> sint (nm_Memory u)) \<longrightarrow>
                  sint (n_MaxMemory nm) = Max (sint ` nm_Memory ` set obs)))"
    and growPods: "\<forall>metrics i iterations mc' e cm.
          map_of (PodMetricsMap metrics) ''web-1'' = Some e \<and> map_of (Containers e) ''app'' = Some cm \<longrightarrow>
          (\<exists>e' cm'. map_of (PodMetricsMap (fst (collectLoop i iterations metrics mc'))) ''web-1'' = Some e'
             \<and> map_of (Containers e') ''app'' = Some cm'
             \<and> sint (c_MaxCPU cm) \<le> sint (c_MaxCPU cm')
             \<and> sint (c_MaxMemory cm) \<le> sint (c_MaxMemory cm'))"
    and growNodes: "\<forall>metrics i iterations mc' nm.
          map_of (NodeMetricsMap metrics) ''node-a'' = Some nm \<longrightarrow>
          (\<exists>nm'. map_of (NodeMetricsMap (fst (collectLoop i iterations metrics mc'))) ''node-a'' = Some nm'
             \<and> sint (n_MaxCPU nm) \<le> sint (n_MaxCPU nm')
             \<and> sint (n_MaxMemory nm) \<le> sint (n_MaxMemory nm'))"
    by (elim exE conjE)
  from ev run have new: "new = ?new"
    by (simp add: sampledClient_def)
  from res run have snap: "snapshot = sampledSnapshot"
    by simp
  have pobs: "?pobs = filter (\<lambda>u. cm_Name u = ''app'')
                  (concat (map pm_Containers (filter (\<lambda>it. pm_Name it = ''web-1'') (podSamples new))))
           \<and> ?pobs \<noteq> []"
    by (simp add: new)
  have ppos: "\<forall>u \<in> set ?pobs. 0 \<le> sint (cm_Cpu u)" "\<forall>u \<in> set ?pobs. 0 \<le> sint (cm_Memory u)"
    by simp_all
  have nobs: "?nobs = filter (\<lambda>u. nm_Name u = ''node-a'') (nodeSamples new)
           \<and> ?nobs \<noteq> []"
    by (simp add: new)
  have npos: "\<forall>u \<in> set ?nobs. 0 \<le> sint (nm_Cpu u)" "\<forall>u \<in> set ?nobs. 0 \<le> sint (nm_Memory u)"
    by simp_all
  from pods [rule_format, OF pobs] obtain e cm where
    "map_of (PodMetricsMap snapshot) ''web-1'' = Some e"
    "map_of (Containers e) ''app'' = Some cm"
    "(\<forall>u \<in> set ?pobs. 0 \<le> sint (cm_Cpu u)) \<longrightarrow>
       sint (c_MaxCPU cm) = Max (sint ` cm_Cpu ` set ?pobs)"
    "(\<forall>u \<in> set ?pobs. 0 \<le> sint (cm_Memory u)) \<longrightarrow>
       sint (c_MaxMemory cm) = Max (sint ` cm_Memory ` set ?pobs)"
    by (elim exE conjE)
  with ppos have "map_of (PodMetricsMap snapshot) ''web-1'' = Some e
      \<and> map_of (Containers e) ''app'' = Some cm
      \<and> sint (c_MaxCPU cm) = Max (sint ` cm_Cpu ` set ?pobs)
      \<and> sint (c_MaxMemory cm) = Max (sint ` cm_Memory ` set ?pobs)"
    by (intro conjI; blast)
  then have 3: "\<exists>e cm. map_of (PodMetricsMap sampledSnapshot) ''web-1'' = Some e
         \<and> map_of (Containers e) ''app'' = Some cm
         \<and> sint (c_MaxCPU cm) = 300 \<and> sint (c_MaxMemory cm) = 50"
    by (simp add: snap)
  from nodes [rule_format, OF nobs] obtain nm where
    "map_of (NodeMetricsMap snapshot) ''node-a'' = Some nm"
    "(\<forall>u \<in> set ?nobs. 0 \<le> sint (nm_Cpu u)) \<longrightarrow>
       sint (n_MaxCPU nm) = Max (sint ` nm_Cpu ` set ?nobs)"
    "(\<forall>u \<in> set ?nobs. 0 \<le> sint (nm_Memory u)) \<longrightarrow>
       sint (n_MaxMemory nm) = Max (sint ` nm_Memory ` set ?nobs)"
    by (elim exE conjE)
  with npos have "map_of (NodeMetricsMap snapshot) ''node-a'' = Some nm
      \<and> sint (n_MaxCPU nm) = Max (sint ` nm_Cpu ` set ?nobs)
      \<and> sint (n_MaxMemory nm) = Max (sint ` nm_Memory ` set ?nobs)"
    by (intro conjI; blast)
  then have 4: "\<exists>nm. map_of (NodeMetricsMap sampledSnapshot) ''node-a'' = Some nm
         \<and> sint (n_MaxCPU nm) = 1000 \<and> sint (n_MaxMemory nm) = 7"
    by (simp add: snap)
  have e0: "map_of (PodMetricsMap sampledSnapshot) ''web-1''
               = Some \<lparr>p_MaxCPU = 0, p_MaxMemory = 0, p_Namespace = ''ns'',
                      Containers = [(''app'', \<lparr>c_MaxCPU = 300, c_MaxMemory = 50\<rparr>)]\<rparr>
          \<and> map_of (Containers \<lparr>p_MaxCPU = 0, p_MaxMemory = 0, p_Namespace = ''ns'',
                      Containers = [(''app'', \<lparr>c_MaxCPU = 300, c_MaxMemory = 50\<rparr>)]\<rparr>) ''app''
               = Some \<lparr>c_MaxCPU = 300, c_MaxMemory = 50\<rparr>"
    by (simp add: sampledSnapshot_def)
  from growPods [rule_format, OF e0, of 0 2 sampledClient]
  have 5: "\<exists>e' cm'. map_of (PodMetricsMap (fst (collectLoop 0 2 sampledSnapshot sampledClient))) ''web-1''
           = Some e'
         \<and> map_of (Containers e') ''app'' = Some cm'
         \<and> 300 \<le> sint (c_MaxCPU cm') \<and> 50 \<le> sint (c_MaxMemory cm')"
    by simp
  have n0: "map_of (NodeMetricsMap sampledSnapshot) ''node-a'' = Some \<lparr>n_MaxCPU = 1000, n_MaxMemory = 7\<rparr>"
    by (simp add: sampledSnapshot_def)
  from growNodes [rule_format, OF n0, of 0 2 sampledClient]
  have 6: "\<exists>nm'. map_of (NodeMetricsMap (fst (collectLoop 0 2 sampledSnapshot sampledClient))) ''node-a''
           = Some nm'
         \<and> 1000 \<le> sint (n_MaxCPU nm') \<and> 7 \<le> sint (n_MaxMemory nm')"
    by simp
  from run have 2: "fst (collectMetrics sampledClient 90000000000) = Inr sampledSnapshot"
    by simp
  show ?thesis
    by (intro conjI probe 2 3 4 5 6)
qed

section \<open>Pods of the same name in different namespaces\<close>

lemma one_entry_per_key:
  "distinct (map fst al) \<Longrightarrow> map_of al k = Some v \<Longrightarrow> length (filter (\<lambda>kv. fst kv = k) al) = 1"
proof (induction al)
  case Nil
  then show ?case by simp
next
  case (Cons a al)
  show ?case
  proof (cases "fst a = k")
    case True
    with Cons.prems(1) have "k \<notin> fst ` set al" by auto
    then have "filter (\<lambda>kv. fst kv = k) al = []"
      by (auto simp: filter_empty_conv)
    with True show ?thesis by simp
  next
    case False
    with Cons show ?thesis by (cases a) auto
  qed
qed

lemma aggregatePod_reads_containers:
  assumes "map_option Containers (map_of (PodMetricsMap m1) (pod_Name pod))
             = map_option Containers (map_of (PodMetricsMap m2) (pod_Name pod))"
  shows "aggregatePod clientset m1 pod dms = aggregatePod clientset m2 pod dms"
proof (cases "map_of (PodMetricsMap m1) (pod_Name pod)")
  case None
  with assms have "map_of (PodMetricsMap m2) (pod_Name pod) = None" by simp
  with None show ?thesis
    by (simp add: aggregatePod_def Let_def split: prod.splits option.splits)
next
  case (Some e1)
  with assms obtain e2 where e2: "map_of (PodMetricsMap m2) (pod_Name pod) = Some e2"
    and "Containers e2 = Containers e1" by (cases "map_of (PodMetricsMap m2) (pod_Name pod)") auto
  with Some show ?thesis
    by (simp add: aggregatePod_def Let_def split: prod.splits option.splits)
qed

text \<open>
  C10. First conjunct: after any pod items are folded into the empty pod map, the entry
  under a pod name \<open>p\<close> is built from all the items of that name, whatever their
  namespaces: it carries the namespace of the first of them, its containers are the fold
  of \<open>updateContainer\<close> (the running maxima) over the containers of all of them in
  order, and it is the only entry of the map under \<open>p\<close>. Second conjunct: what the
  aggregator does with a pod depends on the snapshot only through the containers of the
  entry under the pod's name; neither the namespace stored in the entry nor the pod's
  own namespace takes part in the lookup.
\<close>

theorem same_name_pods_share_one_entry:
  "(\<forall>its. its = filter (\<lambda>it. pm_Name it = p) items \<and> its \<noteq> [] \<longrightarrow>
      map_of (fold updatePod items []) p
        = Some \<lparr>p_MaxCPU = 0, p_MaxMemory = 0, p_Namespace = pm_Namespace (hd its),
                Containers = fold updateContainer (concat (map pm_Containers its)) []\<rparr>
    \<and> length (filter (\<lambda>kv. fst kv = p) (fold updatePod items [])) = 1)
 \<and> (map_option Containers (map_of (PodMetricsMap m1) (pod_Name pod))
       = map_option Containers (map_of (PodMetricsMap m2) (pod_Name pod)) \<longrightarrow>
     aggregatePod clientset m1 pod deploymentMetrics = aggregatePod clientset m2 pod deploymentMetrics)"
proof (intro conjI allI impI)
  fix its
  assume a: "its = filter (\<lambda>it. pm_Name it = p) items \<and> its \<noteq> []"
  then have its: "filter (\<lambda>it. pm_Name it = p) items = its" and ne: "its \<noteq> []"
    by blast+
  show l: "map_of (fold updatePod items []) p
        = Some \<lparr>p_MaxCPU = 0, p_MaxMemory = 0, p_Namespace = pm_Namespace (hd its),
                Containers = fold updateContainer (concat (map pm_Containers its)) []\<rparr>"
    by (simp add: fold_updatePod_lookup its ne)
  have "distinct (map fst (fold updatePod items []))"
    by (rule fold_updatePod_distinct) simp
  then show "length (filter (\<lambda>kv. fst kv = p) (fold updatePod items [])) = 1"
    using l by (rule one_entry_per_key)
next
  assume "map_option Containers (map_of (PodMetricsMap m1) (pod_Name pod))
       = map_option Containers (map_of (PodMetricsMap m2) (pod_Name pod))"
  then show "aggregatePod clientset m1 pod deploymentMetrics = aggregatePod clientset m2 pod deploymentMetrics"
    by (rule aggregatePod_reads_containers)
qed

theorem same_name_pods_share_one_entry_witness:
  "filter (\<lambda>it. pm_Name it = ''web-1'') twoNamespaces = twoNamespaces
 \<and> twoNamespaces \<noteq> []
 \<and> map_of (fold updatePod twoNamespaces []) ''web-1''
     = Some \<lparr>p_MaxCPU = 0, p_MaxMemory = 0, p_Namespace = ''other'',
             Containers = [(''app'', \<lparr>c_MaxCPU = 900, c_MaxMemory = 50\<rparr>)]\<rparr>
 \<and> length (filter (\<lambda>kv. fst kv = ''web-1'') (fold updatePod twoNamespaces [])) = 1
 \<and> aggregatePod webCluster \<lparr>PodMetricsMap = fold updatePod twoNamespaces [], NodeMetricsMap = []\<rparr>
       (webPod ''web-1'' [bothLimits]) []
     = aggregatePod webCluster
         \<lparr>PodMetricsMap = [(''web-1'', oneContainer 900 50)], NodeMetricsMap = []\<rparr>
         (webPod ''web-1'' [bothLimits]) []
 \<and> aggregatePod webCluster \<lparr>PodMetricsMap = fold updatePod twoNamespaces [], NodeMetricsMap = []\<rparr>
       (webPod ''web-1'' [bothLimits]) []
     = Inr [(''ns/web'',
             \<lparr>Name = ''web'', Namespace = ''ns'', Pods = [''web-1''], MaxCPU = 900, MaxMemory = 50,
              AvgCPU = 900, AvgMemory = 50, TotalPods = 1, PodsWithoutLimits = 0,
              Recommendations = []\<rparr>)]"
proof -
  let ?m1 = "\<lparr>PodMetricsMap = fold updatePod twoNamespaces [], NodeMetricsMap = []\<rparr>"
  let ?m2 = "\<lparr>PodMetricsMap = [(''web-1'', oneContainer 900 50)], NodeMetricsMap = []\<rparr>"
  note t = same_name_pods_share_one_entry
    [where p = "''web-1''" and items = twoNamespaces and ?m1.0 = ?m1 and ?m2.0 = ?m2
       and pod = "webPod ''web-1'' [bothLimits]" and clientset = webCluster
       and deploymentMetrics = "[]"]
  have its: "filter (\<lambda>it. pm_Name it = ''web-1'') twoNamespaces = twoNamespaces"
    by (simp add: twoNamespaces_def)
  have ne: "twoNamespaces \<noteq> []"
    by (simp add: twoNamespaces_def)
  from t [THEN conjunct1, rule_format, of twoNamespaces] its ne
  have "map_of (fold updatePod twoNamespaces []) ''web-1''
        = Some \<lparr>p_MaxCPU = 0, p_MaxMemory = 0, p_Namespace = pm_Namespace (hd twoNamespaces),
                Containers = fold updateContainer (concat (map pm_Containers twoNamespaces)) []\<rparr>"
    and 4: "length (filter (\<lambda>kv. fst kv = ''web-1'') (fold updatePod twoNamespaces [])) = 1"
    by simp_all
  then have 3: "map_of (fold updatePod twoNamespaces []) ''web-1''
     = Some \<lparr>p_MaxCPU = 0, p_MaxMemory = 0, p_Namespace = ''other'',
             Containers = [(''app'', \<lparr>c_MaxCPU = 900, c_MaxMemory = 50\<rparr>)]\<rparr>"
    by (simp add: twoNamespaces_def updateContainer_def)
  then have same: "map_option Containers (map_of (PodMetricsMap ?m1) (pod_Name (webPod ''web-1'' [bothLimits])))
       = map_option Containers (map_of (PodMetricsMap ?m2) (pod_Name (webPod ''web-1'' [bothLimits])))"
    by (simp add: webPod_def oneContainer_def)
  from t [THEN conjunct2, rule_format, OF same]
  have 5: "aggregatePod webCluster ?m1 (webPod ''web-1'' [bothLimits]) []
     = aggregatePod webCluster ?m2 (webPod ''web-1'' [bothLimits]) []" .
  have "aggregatePod webCluster ?m2 (webPod ''web-1'' [bothLimits]) []
     = Inr [(''ns/web'',
             \<lparr>Name = ''web'', Namespace = ''ns'', Pods = [''web-1''], MaxCPU = 900, MaxMemory = 50,
              AvgCPU = 900, AvgMemory = 50, TotalPods = 1, PodsWithoutLimits = 0,
              Recommendations = []\<rparr>)]"
    by (simp add: aggregate_eval)
  with 5 have 6: "aggregatePod webCluster ?m1 (webPod ''web-1'' [bothLimits]) []
     = Inr [(''ns/web'',
             \<lparr>Name = ''web'', Namespace = ''ns'', Pods = [''web-1''], MaxCPU = 900, MaxMemory = 50,
              AvgCPU = 900, AvgMemory = 50, TotalPods = 1, PodsWithoutLimits = 0,
              Recommendations = []\<rparr>)]"
    by simp
  show ?thesis
    by (intro conjI its ne 3 4 5 6)
qed

end
